theory Spec2Isabelle
  imports Complex_Main
begin

section \<open>Values and errors of the Python runtime\<close>

text \<open>
  Python ints are modelled as \<open>int\<close>, \<open>str\<close> as \<open>string\<close>, and a Python float as the real
  number it holds: doubles are taken as finite and their operations as exact, so what is
  proved of a score is proved up to the rounding of double arithmetic, and no statement below
  rests on two reals being different.
  The request's \<open>context\<close> and \<open>constraints\<close> are \<open>Dict[str, Any]\<close> decoded from JSON, so
  their values range over \<open>pyval\<close>. A dict is an association list in insertion order whose
  first binding of a key is the one that \<open>get\<close> and \<open>[]\<close> read.
\<close>

datatype pyval =
    PNone
  | PBool bool
  | PInt int
  | PFloat real
  | PStr string
  | PList "pyval list"
  | PDict "(string \<times> pyval) list"

type_synonym pydict = "(string \<times> pyval) list"

datatype py_error = TypeError | ValueError | KeyError | AttributeError | IndexError | OverflowError

text \<open>Truth value testing, as \<open>if v:\<close> and \<open>a and b\<close> do it.\<close>

fun truthy :: "pyval \<Rightarrow> bool" where
  "truthy PNone = False"
| "truthy (PBool b) = b"
| "truthy (PInt i) = (i \<noteq> 0)"
| "truthy (PFloat r) = (r \<noteq> 0)"
| "truthy (PStr s) = (s \<noteq> [])"
| "truthy (PList xs) = (xs \<noteq> [])"
| "truthy (PDict kvs) = (kvs \<noteq> [])"

text \<open>\<open>d.get(k)\<close>: the value, or \<open>None\<close> when the key is missing.\<close>

definition dict_get :: "pydict \<Rightarrow> string \<Rightarrow> pyval" where
  "dict_get d k = (case map_of d k of None \<Rightarrow> PNone | Some v \<Rightarrow> v)"

text \<open>\<open>if d:\<close> for an \<open>Optional[Dict]\<close>: false for \<open>None\<close> and for the empty dict.\<close>

fun dict_truthy :: "pydict option \<Rightarrow> bool" where
  "dict_truthy None = False"
| "dict_truthy (Some d) = (d \<noteq> [])"

text \<open>The numeric value of a Python number (\<open>bool\<close> is a subclass of \<open>int\<close>).\<close>

fun num_of :: "pyval \<Rightarrow> real option" where
  "num_of (PBool b) = Some (if b then 1 else 0)"
| "num_of (PInt i) = Some (real_of_int i)"
| "num_of (PFloat r) = Some r"
| "num_of _ = None"

text \<open>\<open>x > v\<close> for a number \<open>x\<close>: a \<open>TypeError\<close> when \<open>v\<close> is not a number.\<close>

definition num_gt :: "real \<Rightarrow> pyval \<Rightarrow> py_error + bool" where
  "num_gt x v = (case num_of v of None \<Rightarrow> Inl TypeError | Some y \<Rightarrow> Inr (x > y))"

text \<open>
  An int that \<open>float(i)\<close> cannot convert: rounded to the nearest double it would reach
  \<open>2 ^ 1024\<close>, and the conversion raises an \<open>OverflowError\<close>.
\<close>

definition int_overflows :: "int \<Rightarrow> bool" where
  "int_overflows i = (2 ^ 1024 - 2 ^ 970 \<le> \<bar>i\<bar>)"

text \<open>
  \<open>x * v\<close> for a float \<open>x\<close>: a \<open>TypeError\<close> when \<open>v\<close> is not a number, and an
  \<open>OverflowError\<close> when \<open>v\<close> is an int too large to convert to a float.
\<close>

definition num_mul :: "real \<Rightarrow> pyval \<Rightarrow> py_error + real" where
  "num_mul x v =
     (case v of
        PInt i \<Rightarrow> if int_overflows i then Inl OverflowError else Inr (x * real_of_int i)
      | _ \<Rightarrow> (case num_of v of None \<Rightarrow> Inl TypeError | Some y \<Rightarrow> Inr (x * y)))"

text \<open>
  \<open>for x in v\<close>: the elements of a list, the one-character strings of a string, the keys
  of a dict; a \<open>TypeError\<close> for a value that is not iterable.
\<close>

fun py_iter :: "pyval \<Rightarrow> py_error + pyval list" where
  "py_iter (PList xs) = Inr xs"
| "py_iter (PStr s) = Inr (map (\<lambda>c. PStr [c]) s)"
| "py_iter (PDict kvs) = Inr (map (\<lambda>kv. PStr (fst kv)) kvs)"
| "py_iter _ = Inl TypeError"

section \<open>Provider configuration (config/csv\_provider\_loader.py)\<close>

datatype ProviderTier = OFFICIAL | COMMUNITY | UNOFFICIAL

text \<open>\<open>ProviderTier(v)\<close>: the member whose value is \<open>v\<close>, a \<open>ValueError\<close> otherwise.\<close>

definition ProviderTier_of :: "pyval \<Rightarrow> py_error + ProviderTier" where
  "ProviderTier_of v =
     (if v = PStr ''official'' then Inr OFFICIAL
      else if v = PStr ''community'' then Inr COMMUNITY
      else if v = PStr ''unofficial'' then Inr UNOFFICIAL
      else Inl ValueError)"

record ProviderConfig =
  name :: string
  tier :: ProviderTier
  base_url :: string
  api_key :: string
  models :: "string list"
  timeout :: int
  max_requests_per_minute :: int
  cost_per_1k_tokens :: real
  priority :: int
  health_score :: real
  other :: string

section \<open>Provider selection state (selection/dynamic\_selector.py)\<close>

text \<open>
  \<open>ProviderPerformance\<close>; \<open>last_updated\<close> holds the clock reading \<open>datetime.now()\<close>, which
  the model takes as an argument.
\<close>

record ProviderPerformance =
  perf_name :: string
  success_rate :: real
  avg_response_time :: real
  avg_cost_efficiency :: real
  last_updated :: real
  request_count :: int

definition new_ProviderPerformance :: "string \<Rightarrow> real \<Rightarrow> ProviderPerformance" where
  "new_ProviderPerformance n now =
     \<lparr>perf_name = n, success_rate = 1.0, avg_response_time = 1.0,
      avg_cost_efficiency = 1.0, last_updated = now, request_count = 0\<rparr>"

text \<open>
  The selector object: \<open>providers\<close> is the registry dict in insertion order,
  \<open>performance_metrics\<close> the tracker dict.
\<close>

record ProviderSelector =
  providers :: "(string \<times> ProviderConfig) list"
  performance_metrics :: "string \<rightharpoonup> ProviderPerformance"

text \<open>\<open>__init__\<close>: one fresh performance record for every key of the registry.\<close>

fun init_metrics ::
  "string list \<Rightarrow> real \<Rightarrow> (string \<rightharpoonup> ProviderPerformance) \<Rightarrow> (string \<rightharpoonup> ProviderPerformance)"
where
  "init_metrics [] now m = m"
| "init_metrics (k # ks) now m = init_metrics ks now (m(k \<mapsto> new_ProviderPerformance k now))"

definition ProviderSelector_init :: "(string \<times> ProviderConfig) list \<Rightarrow> real \<Rightarrow> ProviderSelector" where
  "ProviderSelector_init ps now =
     \<lparr>providers = ps, performance_metrics = init_metrics (map fst ps) now Map.empty\<rparr>"

subsection \<open>update\_provider\_metrics\<close>

definition alpha :: real where
  "alpha = 0.1"

text \<open>
  The record \<open>update_provider_metrics\<close> works on: the stored one, or the fresh one it
  creates when the name is not in the tracker.
\<close>

definition perf_of :: "ProviderSelector \<Rightarrow> string \<Rightarrow> real \<Rightarrow> ProviderPerformance" where
  "perf_of s n now =
     (case performance_metrics s n of None \<Rightarrow> new_ProviderPerformance n now | Some r \<Rightarrow> r)"

definition update_provider_metrics ::
  "ProviderSelector \<Rightarrow> string \<Rightarrow> real \<Rightarrow> bool \<Rightarrow> real \<Rightarrow> real \<Rightarrow> ProviderSelector"
where
  "update_provider_metrics s provider_name response_time success cost_efficiency now =
     (let metrics = perf_of s provider_name now;
          metrics = metrics\<lparr>avg_response_time := (1 - alpha) * avg_response_time metrics + alpha * response_time\<rparr>;
          metrics = metrics\<lparr>avg_cost_efficiency := (1 - alpha) * avg_cost_efficiency metrics + alpha * cost_efficiency\<rparr>;
          metrics = metrics\<lparr>request_count := request_count metrics + 1\<rparr>;
          metrics = (if success
                     then metrics\<lparr>success_rate := (1 - alpha) * success_rate metrics + alpha * 1.0\<rparr>
                     else metrics\<lparr>success_rate := (1 - alpha) * success_rate metrics + alpha * 0.0\<rparr>);
          metrics = metrics\<lparr>last_updated := now\<rparr>
      in s\<lparr>performance_metrics := (performance_metrics s)(provider_name \<mapsto> metrics)\<rparr>)"

text \<open>One call of \<open>update_provider_metrics\<close>: its arguments and the clock reading.\<close>

record update_call =
  call_name :: string
  call_response_time :: real
  call_success :: bool
  call_cost_efficiency :: real
  call_now :: real

fun update_all :: "ProviderSelector \<Rightarrow> update_call list \<Rightarrow> ProviderSelector" where
  "update_all s [] = s"
| "update_all s (c # cs) =
     update_all (update_provider_metrics s (call_name c) (call_response_time c) (call_success c)
                   (call_cost_efficiency c) (call_now c)) cs"

definition perf_in_range :: "ProviderSelector \<Rightarrow> bool" where
  "perf_in_range s =
     (\<forall>r \<in> ran (performance_metrics s).
        0 \<le> success_rate r \<and> success_rate r \<le> 1 \<and>
        0 \<le> avg_cost_efficiency r \<and> avg_cost_efficiency r \<le> 1)"


section \<open>Complexity scores (ml/task\_reasoning\_engine.py)\<close>



record ComplexityScore =
  reasoning :: real
  knowledge :: real
  computation :: real
  coordination :: real



section \<open>Filtering providers\<close>

text \<open>
  \<open>constraints.get(k) and x > constraints[k]\<close>: whether the bound \<open>k\<close> rules the provider
  out. A missing or falsy bound rules nothing out and is never compared.
\<close>

definition exceeds :: "pydict \<Rightarrow> string \<Rightarrow> real \<Rightarrow> py_error + bool" where
  "exceeds c k x = (if truthy (dict_get c k) then num_gt x (dict_get c k) else Inr False)"

text \<open>\<open>[ProviderTier(tier) for tier in vs]\<close>: the first value that is no tier raises.\<close>

fun tiers_of :: "pyval list \<Rightarrow> py_error + ProviderTier list" where
  "tiers_of [] = Inr []"
| "tiers_of (v # vs) =
     (case ProviderTier_of v of
        Inl e \<Rightarrow> Inl e
      | Inr t \<Rightarrow> (case tiers_of vs of Inl e \<Rightarrow> Inl e | Inr ts \<Rightarrow> Inr (t # ts)))"

definition tier_excluded :: "pydict \<Rightarrow> ProviderTier \<Rightarrow> py_error + bool" where
  "tier_excluded c t =
     (if truthy (dict_get c ''allowed_tiers'') then
        (case py_iter (dict_get c ''allowed_tiers'') of
           Inl e \<Rightarrow> Inl e
         | Inr vs \<Rightarrow> (case tiers_of vs of Inl e \<Rightarrow> Inl e | Inr allowed_tiers \<Rightarrow> Inr (t \<notin> set allowed_tiers)))
      else Inr False)"

text \<open>
  \<open>constraints['required_model'] not in provider.models\<close>: list membership compares with
  \<open>==\<close>, and only a string equals a model name.
\<close>

definition model_missing :: "pydict \<Rightarrow> string list \<Rightarrow> bool" where
  "model_missing c ms =
     (truthy (dict_get c ''required_model'') \<and>
      (case dict_get c ''required_model'' of PStr m \<Rightarrow> m \<notin> set ms | _ \<Rightarrow> True))"

text \<open>The body of the loop under \<open>if constraints:\<close>; \<open>Inr True\<close> reaches \<open>available.append\<close>.\<close>

definition constraints_pass :: "ProviderConfig \<Rightarrow> pydict \<Rightarrow> py_error + bool" where
  "constraints_pass p c =
     (case exceeds c ''max_cost_per_1k'' (cost_per_1k_tokens p) of
        Inl e \<Rightarrow> Inl e
      | Inr over_cost \<Rightarrow>
          if over_cost then Inr False
          else (case exceeds c ''max_timeout'' (real_of_int (timeout p)) of
                  Inl e \<Rightarrow> Inl e
                | Inr over_time \<Rightarrow>
                    if over_time then Inr False
                    else (case tier_excluded c (tier p) of
                            Inl e \<Rightarrow> Inl e
                          | Inr excluded \<Rightarrow>
                              if excluded then Inr False
                              else Inr (\<not> model_missing c (models p)))))"

text \<open>One iteration of the loop: \<open>Inr False\<close> is \<open>continue\<close>, \<open>Inr True\<close> appends.\<close>

definition provider_passes :: "ProviderConfig \<Rightarrow> pydict option \<Rightarrow> py_error + bool" where
  "provider_passes p constraints =
     (if tier p \<noteq> UNOFFICIAL \<and> api_key p = [] then Inr False
      else if health_score p < 0.1 then Inr False
      else (case constraints of
              None \<Rightarrow> Inr True
            | Some c \<Rightarrow> if c = [] then Inr True else constraints_pass p c))"

fun filter_loop :: "ProviderConfig list \<Rightarrow> pydict option \<Rightarrow> py_error + ProviderConfig list" where
  "filter_loop [] constraints = Inr []"
| "filter_loop (p # ps) constraints =
     (case provider_passes p constraints of
        Inl e \<Rightarrow> Inl e
      | Inr keep \<Rightarrow>
          (case filter_loop ps constraints of
             Inl e \<Rightarrow> Inl e
           | Inr available \<Rightarrow> Inr (if keep then p # available else available)))"

definition filter_available_providers ::
  "ProviderSelector \<Rightarrow> pydict option \<Rightarrow> py_error + ProviderConfig list"
where
  "filter_available_providers s constraints = filter_loop (map snd (providers s)) constraints"

section \<open>Scoring providers\<close>

text \<open>The tier's capability on reasoning, knowledge, computation and coordination.\<close>

fun tier_capabilities :: "ProviderTier \<Rightarrow> real \<times> real \<times> real \<times> real" where
  "tier_capabilities OFFICIAL = (0.9, 0.95, 0.85, 0.8)"
| "tier_capabilities COMMUNITY = (0.7, 0.75, 0.8, 0.6)"
| "tier_capabilities UNOFFICIAL = (0.5, 0.6, 0.7, 0.4)"

definition calculate_capability_score :: "ProviderConfig \<Rightarrow> ComplexityScore \<Rightarrow> real" where
  "calculate_capability_score p sc =
     (case tier_capabilities (tier p) of
        (cap_reasoning, cap_knowledge, cap_computation, cap_coordination) \<Rightarrow>
          (let reasoning_match = min 1.0 (cap_reasoning / max 0.1 (reasoning sc));
               knowledge_match = min 1.0 (cap_knowledge / max 0.1 (knowledge sc));
               computation_match = min 1.0 (cap_computation / max 0.1 (computation sc));
               coordination_match = min 1.0 (cap_coordination / max 0.1 (coordination sc))
           in reasoning_match * 0.3 + knowledge_match * 0.3 +
              computation_match * 0.25 + coordination_match * 0.15))"

definition calculate_performance_score :: "ProviderSelector \<Rightarrow> ProviderConfig \<Rightarrow> real" where
  "calculate_performance_score s p =
     (case performance_metrics s (name p) of
        None \<Rightarrow> 0.5
      | Some metrics \<Rightarrow>
          (let response_time_score = max 0.0 (1.0 - avg_response_time metrics / 10.0);
               success_rate_score = success_rate metrics;
               cost_efficiency_score = avg_cost_efficiency metrics
           in response_time_score * 0.4 + success_rate_score * 0.4 + cost_efficiency_score * 0.2))"

definition max_cost :: real where
  "max_cost = 0.01"

definition calculate_cost_score :: "ProviderConfig \<Rightarrow> pydict option \<Rightarrow> py_error + real" where
  "calculate_cost_score p constraints =
     (let cost_score = max 0.0 (1.0 - cost_per_1k_tokens p / max_cost)
      in case constraints of
           None \<Rightarrow> Inr cost_score
         | Some c \<Rightarrow>
             if c \<noteq> [] \<and> truthy (dict_get c ''budget_weight'')
             then num_mul cost_score (dict_get c ''budget_weight'')
             else Inr cost_score)"

fun tier_reliability :: "ProviderTier \<Rightarrow> real" where
  "tier_reliability OFFICIAL = 0.95"
| "tier_reliability COMMUNITY = 0.8"
| "tier_reliability UNOFFICIAL = 0.6"

definition calculate_reliability_score :: "ProviderConfig \<Rightarrow> real" where
  "calculate_reliability_score p =
     (let base_score = tier_reliability (tier p);
          reliability_score = base_score * health_score p;
          rate_limit_factor = min 1.0 (real_of_int (max_requests_per_minute p) / 1000.0)
      in reliability_score * (0.8 + 0.2 * rate_limit_factor))"

text \<open>The weights of capability, performance, cost and reliability under a context.\<close>

definition weights :: "pydict option \<Rightarrow> real \<times> real \<times> real \<times> real" where
  "weights context =
     (case context of
        None \<Rightarrow> (0.35, 0.25, 0.25, 0.15)
      | Some ctx \<Rightarrow>
          if ctx = [] then (0.35, 0.25, 0.25, 0.15)
          else if dict_get ctx ''priority'' = PStr ''cost'' then (0.25, 0.25, 0.4, 0.15)
          else if dict_get ctx ''priority'' = PStr ''performance'' then (0.35, 0.4, 0.15, 0.15)
          else if dict_get ctx ''priority'' = PStr ''quality'' then (0.5, 0.25, 0.15, 0.15)
          else (0.35, 0.25, 0.25, 0.15))"

definition calculate_provider_score ::
  "ProviderSelector \<Rightarrow> ProviderConfig \<Rightarrow> ComplexityScore \<Rightarrow> pydict option \<Rightarrow> pydict option
     \<Rightarrow> py_error + real"
where
  "calculate_provider_score s p sc context constraints =
     (let capability_score = calculate_capability_score p sc;
          performance_score = calculate_performance_score s p
      in case calculate_cost_score p constraints of
           Inl e \<Rightarrow> Inl e
         | Inr cost_score \<Rightarrow>
             (let reliability_score = calculate_reliability_score p
              in case weights context of
                   (w_capability, w_performance, w_cost, w_reliability) \<Rightarrow>
                     Inr (capability_score * w_capability + performance_score * w_performance +
                          cost_score * w_cost + reliability_score * w_reliability)))"

section \<open>select\_provider\<close>

text \<open>The scoring loop: one \<open>(provider, score)\<close> pair per available provider, in order.\<close>

fun score_loop ::
  "ProviderSelector \<Rightarrow> ProviderConfig list \<Rightarrow> ComplexityScore \<Rightarrow> pydict option \<Rightarrow> pydict option
     \<Rightarrow> py_error + (ProviderConfig \<times> real) list"
where
  "score_loop s [] sc context constraints = Inr []"
| "score_loop s (p # ps) sc context constraints =
     (case calculate_provider_score s p sc context constraints of
        Inl e \<Rightarrow> Inl e
      | Inr score \<Rightarrow>
          (case score_loop s ps sc context constraints of
             Inl e \<Rightarrow> Inl e
           | Inr provider_scores \<Rightarrow> Inr ((p, score) # provider_scores)))"

text \<open>
  \<open>provider_scores.sort(key=lambda x: x[1], reverse=True)\<close>: a stable sort by descending
  score, so equal scores keep the order of the registry.
\<close>

definition sort_scores :: "(ProviderConfig \<times> real) list \<Rightarrow> (ProviderConfig \<times> real) list" where
  "sort_scores provider_scores = sort_key (\<lambda>x. - snd x) provider_scores"

text \<open>
  \<open>select_provider\<close> assigns to no attribute of the selector, the registry or the tracker;
  the model returns the selector next to the result so that the state after the call can be
  compared with the state before it, also when the call raises.
\<close>

definition select_provider ::
  "ProviderSelector \<Rightarrow> ComplexityScore \<Rightarrow> pydict option \<Rightarrow> pydict option
     \<Rightarrow> (py_error + ProviderConfig option) \<times> ProviderSelector"
where
  "select_provider s sc context constraints =
     (case filter_available_providers s constraints of
        Inl e \<Rightarrow> (Inl e, s)
      | Inr available_providers \<Rightarrow>
          if available_providers = [] then (Inr None, s)
          else (case score_loop s available_providers sc context constraints of
                  Inl e \<Rightarrow> (Inl e, s)
                | Inr provider_scores \<Rightarrow>
                    (case sort_scores provider_scores of
                       [] \<Rightarrow> (Inl IndexError, s)
                     | best # _ \<Rightarrow> (Inr (Some (fst best)), s))))"

text \<open>Constraints whose present fields have the type the filter expects.\<close>

definition wf_bound :: "pyval \<Rightarrow> bool" where
  "wf_bound v = (\<not> truthy v \<or> num_of v \<noteq> None)"

definition wf_tiers :: "pyval \<Rightarrow> bool" where
  "wf_tiers v =
     (\<not> truthy v \<or>
      (case v of PList vs \<Rightarrow> list_all (\<lambda>x. x \<in> set (map PStr [''official'', ''community'', ''unofficial''])) vs
       | _ \<Rightarrow> False))"

definition wf_constraints :: "pydict option \<Rightarrow> bool" where
  "wf_constraints constraints =
     (case constraints of
        None \<Rightarrow> True
      | Some c \<Rightarrow>
          wf_bound (dict_get c ''max_cost_per_1k'') \<and>
          wf_bound (dict_get c ''max_timeout'') \<and>
          wf_tiers (dict_get c ''allowed_tiers''))"

text \<open>\<open>del d[k]\<close> when the key is there: the dict without the field \<open>k\<close>.\<close>

definition dict_del :: "string \<Rightarrow> pydict \<Rightarrow> pydict" where
  "dict_del k d = filter (\<lambda>kv. fst kv \<noteq> k) d"

text \<open>
  A budget weight that is missing, falsy or a number that \<open>cost_score *= ...\<close> can multiply
  by; \<open>budget_ok\<close> asks in addition that the number is not negative.
\<close>

definition wf_budget :: "pydict option \<Rightarrow> bool" where
  "wf_budget constraints =
     (case constraints of
        None \<Rightarrow> True
      | Some c \<Rightarrow>
          (case num_mul 1 (dict_get c ''budget_weight'') of
             Inl e \<Rightarrow> \<not> truthy (dict_get c ''budget_weight'')
           | Inr w \<Rightarrow> True))"

definition budget_ok :: "pydict option \<Rightarrow> bool" where
  "budget_ok constraints =
     (case constraints of
        None \<Rightarrow> True
      | Some c \<Rightarrow>
          (case num_mul 1 (dict_get c ''budget_weight'') of
             Inl e \<Rightarrow> \<not> truthy (dict_get c ''budget_weight'')
           | Inr w \<Rightarrow> 0 \<le> w))"

text \<open>A value that is \<open>None\<close> (as a missing field reads) or an empty string, list or dict.\<close>

definition empty_value :: "pyval \<Rightarrow> bool" where
  "empty_value v = (v = PNone \<or> v = PStr [] \<or> v = PList [] \<or> v = PDict [])"

text \<open>A truthy bound that is no number.\<close>

definition malformed_bound :: "pyval \<Rightarrow> bool" where
  "malformed_bound v = (truthy v \<and> num_of v = None)"

text \<open>A value that names a tier.\<close>

definition recognised_tier :: "pyval \<Rightarrow> bool" where
  "recognised_tier v = (v \<in> set (map PStr [''official'', ''community'', ''unofficial'']))"

text \<open>The two checks of the filter that come before the constraints.\<close>

definition basic_ok :: "ProviderConfig \<Rightarrow> bool" where
  "basic_ok p = (\<not> (tier p \<noteq> UNOFFICIAL \<and> api_key p = []) \<and> \<not> health_score p < 0.1)"

section \<open>The methods of the selector as state transformers\<close>

text \<open>
  Every method of \<open>ProviderSelector\<close> receives \<open>self\<close> and could assign to the registry,
  to a provider in it or to the tracker. Here each method takes the selector and returns, next to
  its result, the selector it leaves behind, and a caller passes on the selector that its
  callee returned. A method whose body reads only its arguments returns the selector it was
  given.
\<close>

fun filter_loop_st ::
  "ProviderConfig list \<Rightarrow> pydict option \<Rightarrow> ProviderSelector
     \<Rightarrow> (py_error + ProviderConfig list) \<times> ProviderSelector"
where
  "filter_loop_st [] constraints s = (Inr [], s)"
| "filter_loop_st (p # ps) constraints s =
     (case provider_passes p constraints of
        Inl e \<Rightarrow> (Inl e, s)
      | Inr keep \<Rightarrow>
          (case filter_loop_st ps constraints s of
             (Inl e, s') \<Rightarrow> (Inl e, s')
           | (Inr available, s') \<Rightarrow> (Inr (if keep then p # available else available), s')))"

definition filter_available_providers_st ::
  "ProviderSelector \<Rightarrow> pydict option \<Rightarrow> (py_error + ProviderConfig list) \<times> ProviderSelector"
where
  "filter_available_providers_st s constraints = filter_loop_st (map snd (providers s)) constraints s"

definition calculate_capability_score_st ::
  "ProviderSelector \<Rightarrow> ProviderConfig \<Rightarrow> ComplexityScore \<Rightarrow> real \<times> ProviderSelector"
where
  "calculate_capability_score_st s p sc = (calculate_capability_score p sc, s)"

definition calculate_performance_score_st ::
  "ProviderSelector \<Rightarrow> ProviderConfig \<Rightarrow> real \<times> ProviderSelector"
where
  "calculate_performance_score_st s p =
     (case performance_metrics s (name p) of
        None \<Rightarrow> (0.5, s)
      | Some metrics \<Rightarrow>
          (let response_time_score = max 0.0 (1.0 - avg_response_time metrics / 10.0);
               success_rate_score = success_rate metrics;
               cost_efficiency_score = avg_cost_efficiency metrics
           in (response_time_score * 0.4 + success_rate_score * 0.4 + cost_efficiency_score * 0.2, s)))"

definition calculate_cost_score_st ::
  "ProviderSelector \<Rightarrow> ProviderConfig \<Rightarrow> pydict option \<Rightarrow> (py_error + real) \<times> ProviderSelector"
where
  "calculate_cost_score_st s p constraints = (calculate_cost_score p constraints, s)"

definition calculate_reliability_score_st ::
  "ProviderSelector \<Rightarrow> ProviderConfig \<Rightarrow> real \<times> ProviderSelector"
where
  "calculate_reliability_score_st s p = (calculate_reliability_score p, s)"

definition calculate_provider_score_st ::
  "ProviderSelector \<Rightarrow> ProviderConfig \<Rightarrow> ComplexityScore \<Rightarrow> pydict option \<Rightarrow> pydict option
     \<Rightarrow> (py_error + real) \<times> ProviderSelector"
where
  "calculate_provider_score_st s p sc context constraints =
     (case calculate_capability_score_st s p sc of
        (capability_score, s1) \<Rightarrow>
          (case calculate_performance_score_st s1 p of
             (performance_score, s2) \<Rightarrow>
               (case calculate_cost_score_st s2 p constraints of
                  (Inl e, s3) \<Rightarrow> (Inl e, s3)
                | (Inr cost_score, s3) \<Rightarrow>
                    (case calculate_reliability_score_st s3 p of
                       (reliability_score, s4) \<Rightarrow>
                         (case weights context of
                            (w_capability, w_performance, w_cost, w_reliability) \<Rightarrow>
                              (Inr (capability_score * w_capability + performance_score * w_performance +
                                    cost_score * w_cost + reliability_score * w_reliability), s4))))))"

fun score_loop_st ::
  "ProviderSelector \<Rightarrow> ProviderConfig list \<Rightarrow> ComplexityScore \<Rightarrow> pydict option \<Rightarrow> pydict option
     \<Rightarrow> (py_error + (ProviderConfig \<times> real) list) \<times> ProviderSelector"
where
  "score_loop_st s [] sc context constraints = (Inr [], s)"
| "score_loop_st s (p # ps) sc context constraints =
     (case calculate_provider_score_st s p sc context constraints of
        (Inl e, s1) \<Rightarrow> (Inl e, s1)
      | (Inr score, s1) \<Rightarrow>
          (case score_loop_st s1 ps sc context constraints of
             (Inl e, s2) \<Rightarrow> (Inl e, s2)
           | (Inr provider_scores, s2) \<Rightarrow> (Inr ((p, score) # provider_scores), s2)))"

definition select_provider_st ::
  "ProviderSelector \<Rightarrow> ComplexityScore \<Rightarrow> pydict option \<Rightarrow> pydict option
     \<Rightarrow> (py_error + ProviderConfig option) \<times> ProviderSelector"
where
  "select_provider_st s sc context constraints =
     (case filter_available_providers_st s constraints of
        (Inl e, s1) \<Rightarrow> (Inl e, s1)
      | (Inr available_providers, s1) \<Rightarrow>
          if available_providers = [] then (Inr None, s1)
          else (case score_loop_st s1 available_providers sc context constraints of
                  (Inl e, s2) \<Rightarrow> (Inl e, s2)
                | (Inr provider_scores, s2) \<Rightarrow>
                    (case sort_scores provider_scores of
                       [] \<Rightarrow> (Inl IndexError, s2)
                     | best # _ \<Rightarrow> (Inr (Some (fst best)), s2))))"

section \<open>Text primitives of the complexity analyzer\<close>

text \<open>
  Text is modelled as ASCII: \<open>str.lower\<close>, \<open>str.split\<close> and the classes \<open>\d\<close>, \<open>\w\<close>,
  \<open>[A-Z]\<close>, \<open>[a-z]\<close> of \<open>re\<close> are given on the ASCII range, and a character outside it
  is neither a letter, a digit nor white space and is its own lower case.
\<close>

definition is_upper :: "char \<Rightarrow> bool" where
  "is_upper c = (65 \<le> (of_char c :: nat) \<and> (of_char c :: nat) \<le> 90)"

definition is_lower :: "char \<Rightarrow> bool" where
  "is_lower c = (97 \<le> (of_char c :: nat) \<and> (of_char c :: nat) \<le> 122)"

definition is_digit :: "char \<Rightarrow> bool" where
  "is_digit c = (48 \<le> (of_char c :: nat) \<and> (of_char c :: nat) \<le> 57)"

text \<open>\<open>\w\<close>: a letter, a digit or the underscore.\<close>

definition is_word :: "char \<Rightarrow> bool" where
  "is_word c = (is_upper c \<or> is_lower c \<or> is_digit c \<or> (of_char c :: nat) = 95)"

text \<open>White space of \<open>str.split()\<close>: tab to carriage return, the separators 28 to 31, space.\<close>

definition is_space :: "char \<Rightarrow> bool" where
  "is_space c =
     ((9 \<le> (of_char c :: nat) \<and> (of_char c :: nat) \<le> 13) \<or>
      (28 \<le> (of_char c :: nat) \<and> (of_char c :: nat) \<le> 32))"

definition lower_char :: "char \<Rightarrow> char" where
  "lower_char c = (if is_upper c then char_of ((of_char c :: nat) + 32) else c)"

text \<open>\<open>s.lower()\<close>\<close>

definition lower :: "string \<Rightarrow> string" where
  "lower s = map lower_char s"

text \<open>\<open>s.startswith(k)\<close>\<close>

fun startswith :: "string \<Rightarrow> string \<Rightarrow> bool" where
  "startswith s [] = True"
| "startswith [] (k # ks) = False"
| "startswith (c # cs) (k # ks) = (c = k \<and> startswith cs ks)"

text \<open>\<open>k in s\<close> for strings: \<open>k\<close> occurs in \<open>s\<close>.\<close>

fun str_in :: "string \<Rightarrow> string \<Rightarrow> bool" where
  "str_in k [] = (k = [])"
| "str_in k (c # cs) = (startswith (c # cs) k \<or> str_in k cs)"

text \<open>
  The rest of a match of \<open>a.*b\<close> once \<open>a\<close> is read: \<open>b\<close> starts here, or after more
  characters of the same line (\<open>.\<close> matches everything but the newline).
\<close>

fun dotstar_then :: "string \<Rightarrow> string \<Rightarrow> bool" where
  "dotstar_then b [] = (b = [])"
| "dotstar_then b (c # cs) = (startswith (c # cs) b \<or> (c \<noteq> CHR 0x0A \<and> dotstar_then b cs))"

text \<open>\<open>re.search('a.*b', s)\<close> for literal \<open>a\<close> and \<open>b\<close>: whether there is a match.\<close>

fun re_search_dotstar :: "string \<Rightarrow> string \<Rightarrow> string \<Rightarrow> bool" where
  "re_search_dotstar a b [] = (a = [] \<and> b = [])"
| "re_search_dotstar a b (c # cs) =
     ((startswith (c # cs) a \<and> dotstar_then b (drop (length a) (c # cs))) \<or> re_search_dotstar a b cs)"

text \<open>\<open>re.search('a|b|...', s)\<close> for literal alternatives: one of them occurs in \<open>s\<close>.\<close>

definition re_search_alt :: "string list \<Rightarrow> string \<Rightarrow> bool" where
  "re_search_alt alts s = list_ex (\<lambda>a. str_in a s) alts"

text \<open>
  The maximal runs of characters of a class, from left to right; \<open>cur\<close> is the run being
  read, reversed.
\<close>

fun runs :: "(char \<Rightarrow> bool) \<Rightarrow> string \<Rightarrow> string \<Rightarrow> string list" where
  "runs P cur [] = (if cur = [] then [] else [rev cur])"
| "runs P cur (c # cs) =
     (if P c then runs P (c # cur) cs
      else if cur = [] then runs P [] cs
      else rev cur # runs P [] cs)"

text \<open>\<open>s.split()\<close>: the maximal runs without white space.\<close>

definition split :: "string \<Rightarrow> string list" where
  "split s = runs (\<lambda>c. \<not> is_space c) [] s"

text \<open>\<open>re.findall(r'\d+', s)\<close>: the maximal runs of digits.\<close>

definition findall_digits :: "string \<Rightarrow> string list" where
  "findall_digits s = runs is_digit [] s"

text \<open>
  \<open>re.findall(r'\b[A-Z][a-z]+\b', s)\<close>. A match starts at a word boundary with a word
  character, so at the start of a maximal run of word characters, and ends at a word boundary
  after a lower-case letter; giving back letters of \<open>[a-z]+\<close> never reaches a boundary. The
  matches are therefore the maximal runs of word characters that are one upper-case letter
  followed by one or more lower-case letters.
\<close>

fun capitalized :: "string \<Rightarrow> bool" where
  "capitalized [] = False"
| "capitalized (c # cs) = (is_upper c \<and> cs \<noteq> [] \<and> list_all is_lower cs)"

definition findall_proper_nouns :: "string \<Rightarrow> string list" where
  "findall_proper_nouns s = filter capitalized (runs is_word [] s)"

text \<open>\<open>sum(1 for keyword in keywords if keyword in content)\<close>\<close>

definition count_keywords :: "string list \<Rightarrow> string \<Rightarrow> nat" where
  "count_keywords keywords content = length (filter (\<lambda>keyword. str_in keyword content) keywords)"

text \<open>\<open>any(term in content for term in terms)\<close>\<close>

definition any_in :: "string list \<Rightarrow> string \<Rightarrow> bool" where
  "any_in terms content = list_ex (\<lambda>term. str_in term content) terms"

section \<open>TaskReasoningEngine\<close>

definition reasoning_keywords :: "string list" where
  "reasoning_keywords =
     [''analyze'', ''explain'', ''reason'', ''logic'', ''because'', ''therefore'',
      ''conclude'', ''infer'', ''deduce'', ''argue'', ''justify'', ''prove'']"

definition knowledge_keywords :: "string list" where
  "knowledge_keywords =
     [''history'', ''science'', ''literature'', ''mathematics'', ''physics'',
      ''chemistry'', ''biology'', ''geography'', ''philosophy'', ''psychology'',
      ''economics'', ''politics'', ''law'', ''medicine'', ''technology'']"

definition computation_keywords :: "string list" where
  "computation_keywords =
     [''calculate'', ''compute'', ''solve'', ''equation'', ''formula'', ''algorithm'',
      ''programming'', ''code'', ''debug'', ''optimize'', ''data'', ''statistics'']"

definition coordination_keywords :: "string list" where
  "coordination_keywords =
     [''plan'', ''schedule'', ''organize'', ''coordinate'', ''manage'', ''workflow'',
      ''steps'', ''process'', ''sequence'', ''timeline'', ''project'', ''task'']"

text \<open>Each pattern is an alternation of literals, given as the list of its alternatives.\<close>

definition high_complexity_patterns :: "string list list" where
  "high_complexity_patterns =
     [[''multi-step'', ''multiple steps''],
      [''complex'', ''complicated'', ''sophisticated''],
      [''detailed analysis'', ''in-depth''],
      [''comprehensive'', ''thorough''],
      [''advanced'', ''expert level'']]"

text \<open>The patterns \<open>a.*b\<close> of the logical connectors, as the pairs \<open>(a, b)\<close>.\<close>

definition logical_patterns :: "(string \<times> string) list" where
  "logical_patterns =
     [(''if'', ''then''), (''because'', ''therefore''), (''since'', ''thus''), (''given'', ''conclude'')]"

definition question_words :: "string list" where
  "question_words = [''why'', ''how'', ''what if'', ''suppose'']"

definition calculate_reasoning_score :: "string \<Rightarrow> real" where
  "calculate_reasoning_score content =
     (let score = 0.0;
          keyword_count = count_keywords reasoning_keywords content;
          score = score + min 0.5 (real keyword_count * 0.1);
          score = fold (\<lambda>pattern score.
                    if re_search_dotstar (fst pattern) (snd pattern) content then score + 0.2 else score)
                    logical_patterns score;
          score = fold (\<lambda>word score. if str_in word content then score + 0.15 else score)
                    question_words score
      in min 1.0 score)"

definition calculate_knowledge_score :: "string \<Rightarrow> real" where
  "calculate_knowledge_score content =
     (let score = 0.0;
          keyword_count = count_keywords knowledge_keywords content;
          score = score + min 0.6 (real keyword_count * 0.1);
          score = (if any_in [''research'', ''study'', ''theory'', ''concept''] content
                   then score + 0.2 else score);
          proper_nouns = findall_proper_nouns content;
          score = (if length proper_nouns > 3 then score + 0.2 else score)
      in min 1.0 score)"

definition calculate_computation_score :: "string \<Rightarrow> real" where
  "calculate_computation_score content =
     (let score = 0.0;
          keyword_count = count_keywords computation_keywords content;
          score = score + min 0.5 (real keyword_count * 0.15);
          numbers = findall_digits content;
          score = (if length numbers > 2 then score + 0.2 else score);
          math_operators = [''+'', ''-'', ''*'', ''/'', ''='', ''<'', ''>'', ''%''];
          score = (if any_in math_operators content then score + 0.2 else score);
          code_terms = [''function'', ''variable'', ''loop'', ''condition'', ''array'', ''object''];
          score = (if any_in code_terms content then score + 0.3 else score)
      in min 1.0 score)"

definition calculate_coordination_score :: "string \<Rightarrow> real" where
  "calculate_coordination_score content =
     (let score = 0.0;
          keyword_count = count_keywords coordination_keywords content;
          score = score + min 0.4 (real keyword_count * 0.1);
          sequential_terms = [''first'', ''second'', ''third'', ''next'', ''then'', ''finally'', ''step''];
          seq_count = count_keywords sequential_terms content;
          score = (if seq_count > 2 then score + 0.3 else score);
          coord_terms = [''coordinate'', ''collaborate'', ''integrate'', ''combine'', ''merge''];
          score = (if any_in coord_terms content then score + 0.3 else score)
      in min 1.0 score)"

definition get_length_modifier :: "string \<Rightarrow> real" where
  "get_length_modifier content =
     (let word_count = length (split content)
      in if word_count < 10 then 0.8
         else if word_count < 50 then 1.0
         else if word_count < 200 then 1.2
         else 1.4)"

definition get_pattern_modifier :: "string \<Rightarrow> real" where
  "get_pattern_modifier content =
     (let modifier = fold (\<lambda>pattern modifier.
                       if re_search_alt pattern content then modifier + 0.2 else modifier)
                       high_complexity_patterns 1.0
      in min 2.0 modifier)"

text \<open>\<open>v.lower()\<close> on a value: an \<open>AttributeError\<close> when \<open>v\<close> is not a string.\<close>

fun py_lower :: "pyval \<Rightarrow> py_error + string" where
  "py_lower (PStr s) = Inr (lower s)"
| "py_lower _ = Inl AttributeError"

definition get_context_modifier :: "pydict \<Rightarrow> string \<Rightarrow> py_error + real" where
  "get_context_modifier context dimension =
     (case (if truthy (dict_get context ''complexity_hint'') then
              (case py_lower (dict_get context ''complexity_hint'') of
                 Inl e \<Rightarrow> Inl e
               | Inr hint \<Rightarrow>
                   if hint \<in> set [''high'', ''complex'', ''advanced''] then Inr 1.5
                   else if hint \<in> set [''low'', ''simple'', ''basic''] then Inr 0.7
                   else Inr 1.0)
            else Inr 1.0) of
        Inl e \<Rightarrow> Inl e
      | Inr modifier \<Rightarrow>
          if truthy (dict_get context ''domain'') then
            (case py_lower (dict_get context ''domain'') of
               Inl e \<Rightarrow> Inl e
             | Inr domain \<Rightarrow>
                 if dimension = ''knowledge'' \<and> domain \<in> set [''academic'', ''research'', ''technical'']
                 then Inr (modifier * 1.3)
                 else if dimension = ''computation'' \<and> domain \<in> set [''programming'', ''math'', ''engineering'']
                 then Inr (modifier * 1.4)
                 else Inr modifier)
          else Inr modifier)"

text \<open>The four context modifiers of \<open>if context:\<close>, in the order the source asks for them.\<close>

definition context_modifiers :: "pydict option \<Rightarrow> py_error + (real \<times> real \<times> real \<times> real)" where
  "context_modifiers context =
     (case context of
        None \<Rightarrow> Inr (1, 1, 1, 1)
      | Some ctx \<Rightarrow>
          if ctx = [] then Inr (1, 1, 1, 1)
          else (case get_context_modifier ctx ''reasoning'' of
                  Inl e \<Rightarrow> Inl e
                | Inr m_reasoning \<Rightarrow>
                    (case get_context_modifier ctx ''knowledge'' of
                       Inl e \<Rightarrow> Inl e
                     | Inr m_knowledge \<Rightarrow>
                         (case get_context_modifier ctx ''computation'' of
                            Inl e \<Rightarrow> Inl e
                          | Inr m_computation \<Rightarrow>
                              (case get_context_modifier ctx ''coordination'' of
                                 Inl e \<Rightarrow> Inl e
                               | Inr m_coordination \<Rightarrow>
                                   Inr (m_reasoning, m_knowledge, m_computation, m_coordination))))))"

definition analyze_complexity :: "string \<Rightarrow> pydict option \<Rightarrow> py_error + ComplexityScore" where
  "analyze_complexity content context =
     (let content_lower = lower content;
          reasoning_score = calculate_reasoning_score content_lower;
          knowledge_score = calculate_knowledge_score content_lower;
          computation_score = calculate_computation_score content_lower;
          coordination_score = calculate_coordination_score content_lower
      in case context_modifiers context of
           Inl e \<Rightarrow> Inl e
         | Inr (m_reasoning, m_knowledge, m_computation, m_coordination) \<Rightarrow>
             (let reasoning_score = reasoning_score * m_reasoning;
                  knowledge_score = knowledge_score * m_knowledge;
                  computation_score = computation_score * m_computation;
                  coordination_score = coordination_score * m_coordination;
                  length_modifier = get_length_modifier content;
                  pattern_modifier = get_pattern_modifier content_lower
              in Inr \<lparr>reasoning = min 1.0 (reasoning_score * length_modifier * pattern_modifier),
                      knowledge = min 1.0 (knowledge_score * length_modifier * pattern_modifier),
                      computation = min 1.0 (computation_score * length_modifier * pattern_modifier),
                      coordination = min 1.0 (coordination_score * length_modifier * pattern_modifier)\<rparr>))"




section \<open>Metrics collection (monitoring/metrics\_collector.py)\<close>

record RequestMetric =
  timestamp :: real
  provider :: string
  model :: string
  success :: bool
  response_time :: real
  cost :: real
  input_tokens :: int
  output_tokens :: int
  metric_complexity_level :: string
  error_type :: "string option"

record ProviderMetrics =
  pm_name :: string
  total_requests :: int
  successful_requests :: int
  failed_requests :: int
  total_response_time :: real
  total_cost :: real
  total_tokens :: int
  last_request_time :: "real option"
  error_counts :: "string \<rightharpoonup> int"

definition new_ProviderMetrics :: "string \<Rightarrow> ProviderMetrics" where
  "new_ProviderMetrics n =
     \<lparr>pm_name = n, total_requests = 0, successful_requests = 0, failed_requests = 0,
      total_response_time = 0.0, total_cost = 0.0, total_tokens = 0,
      last_request_time = None, error_counts = Map.empty\<rparr>"

text \<open>One entry of \<open>hourly_stats\<close>; \<open>hour_providers\<close> is a \<open>defaultdict(int)\<close>.\<close>

record HourlyStats =
  requests :: int
  successes :: int
  hour_total_cost :: real
  hour_total_response_time :: real
  hour_providers :: "string \<rightharpoonup> int"
  hour_complexity :: "string \<rightharpoonup> int"

definition complexity_zero :: "string \<rightharpoonup> int" where
  "complexity_zero = [''low'' \<mapsto> 0, ''medium'' \<mapsto> 0, ''high'' \<mapsto> 0]"

definition new_HourlyStats :: HourlyStats where
  "new_HourlyStats =
     \<lparr>requests = 0, successes = 0, hour_total_cost = 0.0, hour_total_response_time = 0.0,
      hour_providers = Map.empty, hour_complexity = complexity_zero\<rparr>"

record MetricsCollector =
  retention_hours :: int
  start_time :: real
  request_metrics :: "RequestMetric list"
  provider_metrics :: "string \<rightharpoonup> ProviderMetrics"
  hourly_stats :: "string \<rightharpoonup> HourlyStats"
  complexity_stats :: "string \<rightharpoonup> int"

text \<open>\<open>__init__\<close>; \<open>now\<close> is the reading of \<open>time.time()\<close>.\<close>

definition MetricsCollector_init :: "int \<Rightarrow> real \<Rightarrow> MetricsCollector" where
  "MetricsCollector_init hours now =
     \<lparr>retention_hours = hours, start_time = now, request_metrics = [],
      provider_metrics = Map.empty, hourly_stats = Map.empty, complexity_stats = complexity_zero\<rparr>"

text \<open>\<open>MetricsCollector._update_provider_metrics\<close>\<close>

definition mc_update_provider_metrics :: "MetricsCollector \<Rightarrow> RequestMetric \<Rightarrow> MetricsCollector" where
  "mc_update_provider_metrics s metric =
     (let provider_name = provider metric;
          pm = (case provider_metrics s provider_name of
                  None \<Rightarrow> new_ProviderMetrics provider_name
                | Some pm \<Rightarrow> pm);
          pm = pm\<lparr>total_requests := total_requests pm + 1\<rparr>;
          pm = pm\<lparr>total_response_time := total_response_time pm + response_time metric\<rparr>;
          pm = pm\<lparr>total_cost := total_cost pm + cost metric\<rparr>;
          pm = pm\<lparr>total_tokens := total_tokens pm + (input_tokens metric + output_tokens metric)\<rparr>;
          pm = pm\<lparr>last_request_time := Some (timestamp metric)\<rparr>;
          pm = (if success metric then pm\<lparr>successful_requests := successful_requests pm + 1\<rparr>
                else (let pm = pm\<lparr>failed_requests := failed_requests pm + 1\<rparr>
                      in case error_type metric of
                           None \<Rightarrow> pm
                         | Some e \<Rightarrow>
                             if e = [] then pm
                             else pm\<lparr>error_counts := (error_counts pm)
                                      (e \<mapsto> (case error_counts pm e of None \<Rightarrow> 0 | Some n \<Rightarrow> n) + 1)\<rparr>))
      in s\<lparr>provider_metrics := (provider_metrics s)(provider_name \<mapsto> pm)\<rparr>)"

text \<open>
  \<open>_update_hourly_stats\<close>. The hour key
  \<open>datetime.fromtimestamp(t).strftime("%Y-%m-%d-%H")\<close> depends on the local time zone and
  is the argument \<open>hour_of\<close>. The entry is updated in place, so the fields written before
  a \<open>KeyError\<close> on the complexity counter stay written.
\<close>

definition update_hourly_stats ::
  "MetricsCollector \<Rightarrow> RequestMetric \<Rightarrow> (real \<Rightarrow> string) \<Rightarrow> py_error option \<times> MetricsCollector"
where
  "update_hourly_stats s metric hour_of =
     (let hour_key = hour_of (timestamp metric);
          stats = (case hourly_stats s hour_key of None \<Rightarrow> new_HourlyStats | Some st \<Rightarrow> st);
          stats = stats\<lparr>requests := requests stats + 1\<rparr>;
          stats = stats\<lparr>hour_total_cost := hour_total_cost stats + cost metric\<rparr>;
          stats = stats\<lparr>hour_total_response_time := hour_total_response_time stats + response_time metric\<rparr>;
          stats = stats\<lparr>hour_providers := (hour_providers stats)
                    (provider metric \<mapsto> (case hour_providers stats (provider metric) of None \<Rightarrow> 0 | Some n \<Rightarrow> n) + 1)\<rparr>
      in case hour_complexity stats (metric_complexity_level metric) of
           None \<Rightarrow> (Some KeyError, s\<lparr>hourly_stats := (hourly_stats s)(hour_key \<mapsto> stats)\<rparr>)
         | Some n \<Rightarrow>
             (let stats = stats\<lparr>hour_complexity := (hour_complexity stats)(metric_complexity_level metric \<mapsto> n + 1)\<rparr>;
                  stats = (if success metric then stats\<lparr>successes := successes stats + 1\<rparr> else stats)
              in (None, s\<lparr>hourly_stats := (hourly_stats s)(hour_key \<mapsto> stats)\<rparr>)))"

text \<open>
  \<open>record_request\<close>: the error raised, if any, and the collector after the call. \<open>now\<close> is
  the reading of \<open>time.time()\<close>.
\<close>

definition record_request ::
  "MetricsCollector \<Rightarrow> string \<Rightarrow> string \<Rightarrow> bool \<Rightarrow> real \<Rightarrow> real \<Rightarrow> int \<Rightarrow> int \<Rightarrow> string
     \<Rightarrow> string option \<Rightarrow> real \<Rightarrow> (real \<Rightarrow> string) \<Rightarrow> py_error option \<times> MetricsCollector"
where
  "record_request s provider_name mdl ok rt cst in_tok out_tok level err now hour_of =
     (let metric = \<lparr>timestamp = now, provider = provider_name, model = mdl, success = ok,
                     response_time = rt, cost = cst, input_tokens = in_tok, output_tokens = out_tok,
                     metric_complexity_level = level, error_type = err\<rparr>;
          s = s\<lparr>request_metrics := request_metrics s @ [metric]\<rparr>;
          s = mc_update_provider_metrics s metric
      in case complexity_stats s level of
           None \<Rightarrow> (Some KeyError, s)
         | Some n \<Rightarrow>
             update_hourly_stats (s\<lparr>complexity_stats := (complexity_stats s)(level \<mapsto> n + 1)\<rparr>)
               metric hour_of)"

definition levels :: "string set" where
  "levels = {''low'', ''medium'', ''high''}"

text \<open>
  What \<open>__init__\<close> sets up and every call keeps: the complexity counter, and the one of
  every hourly entry, have exactly the keys \<open>low\<close>, \<open>medium\<close> and \<open>high\<close>.
\<close>

definition collector_inv :: "MetricsCollector \<Rightarrow> bool" where
  "collector_inv s =
     (dom (complexity_stats s) = levels \<and>
      (\<forall>st \<in> ran (hourly_stats s). dom (hour_complexity st) = levels))"

text \<open>The total request count of a provider in the aggregates, 0 when it has no entry.\<close>

definition provider_total :: "MetricsCollector \<Rightarrow> string \<Rightarrow> int" where
  "provider_total s n = (case provider_metrics s n of None \<Rightarrow> 0 | Some pm \<Rightarrow> total_requests pm)"

section \<open>A registry of three providers\<close>

text \<open>
  An official and a community provider with keys, and a keyless unofficial one whose health
  is 0.05; the registry keys are the lower-cased names, as the loader stores them.
\<close>

definition example_P1 :: ProviderConfig where
  "example_P1 =
     \<lparr>name = ''P1'', tier = OFFICIAL, base_url = ''https://p1.example'', api_key = ''key1'',
      models = [''m1''], timeout = 30, max_requests_per_minute = 60,
      cost_per_1k_tokens = 0.0001, priority = 1, health_score = 1.0, other = []\<rparr>"

definition example_P2 :: ProviderConfig where
  "example_P2 =
     \<lparr>name = ''P2'', tier = COMMUNITY, base_url = ''https://p2.example'', api_key = ''key2'',
      models = [''m2''], timeout = 30, max_requests_per_minute = 60,
      cost_per_1k_tokens = 0.00005, priority = 2, health_score = 1.0, other = []\<rparr>"

definition example_P3 :: ProviderConfig where
  "example_P3 =
     \<lparr>name = ''P3'', tier = UNOFFICIAL, base_url = ''http://localhost'', api_key = [],
      models = [''m3''], timeout = 30, max_requests_per_minute = 60,
      cost_per_1k_tokens = 0.0, priority = 3, health_score = 0.05, other = []\<rparr>"

definition example_selector :: ProviderSelector where
  "example_selector =
     ProviderSelector_init [(''p1'', example_P1), (''p2'', example_P2), (''p3'', example_P3)] 0"

definition example_score :: ComplexityScore where
  "example_score = \<lparr>reasoning = 0.2, knowledge = 0.1, computation = 0.1, coordination = 0.2\<rparr>"

section \<open>Properties of the performance tracker\<close>

lemma perf_of_update_same:
  "perf_of (update_provider_metrics s n rt ok ce now) n now' =
     (perf_of s n now)\<lparr>avg_response_time := 0.9 * avg_response_time (perf_of s n now) + 0.1 * rt,
        avg_cost_efficiency := 0.9 * avg_cost_efficiency (perf_of s n now) + 0.1 * ce,
        request_count := request_count (perf_of s n now) + 1,
        success_rate := 0.9 * success_rate (perf_of s n now) + 0.1 * (if ok then 1 else 0),
        last_updated := now\<rparr>"
  by (simp add: update_provider_metrics_def perf_of_def alpha_def Let_def)

lemma metrics_update_other:
  "m \<noteq> n \<Longrightarrow> performance_metrics (update_provider_metrics s n rt ok ce now) m = performance_metrics s m"
  by (simp add: update_provider_metrics_def Let_def)

text \<open>
  Claim C5. \<open>update_provider_metrics\<close> replaces \<open>avg_response_time\<close>,
  \<open>avg_cost_efficiency\<close> and \<open>success_rate\<close> by \<open>0.9 * old + 0.1 * sample\<close>, where the
  sample of \<open>success_rate\<close> is 1 for a success and 0 for a failure. After one update with
  \<open>success = True\<close> and \<open>response_time = 2.0\<close> on a fresh record, whether it is stored
  already or created by the call, \<open>success_rate\<close> is 1.0 and \<open>avg_response_time\<close> is 1.1.
\<close>

theorem update_provider_metrics_ema:
  "avg_response_time (perf_of (update_provider_metrics s n rt ok ce now) n now') =
     0.9 * avg_response_time (perf_of s n now) + 0.1 * rt \<and>
   avg_cost_efficiency (perf_of (update_provider_metrics s n rt ok ce now) n now') =
     0.9 * avg_cost_efficiency (perf_of s n now) + 0.1 * ce \<and>
   success_rate (perf_of (update_provider_metrics s n rt ok ce now) n now') =
     0.9 * success_rate (perf_of s n now) + 0.1 * (if ok then 1.0 else 0.0) \<and>
   success_rate (perf_of (update_provider_metrics
       (s\<lparr>performance_metrics := (performance_metrics s)(n \<mapsto> new_ProviderPerformance n t0)\<rparr>)
       n 2.0 True ce now) n now') = 1.0 \<and>
   avg_response_time (perf_of (update_provider_metrics
       (s\<lparr>performance_metrics := (performance_metrics s)(n \<mapsto> new_ProviderPerformance n t0)\<rparr>)
       n 2.0 True ce now) n now') = 1.1 \<and>
   success_rate (perf_of (update_provider_metrics
       (s\<lparr>performance_metrics := (performance_metrics s)(n := None)\<rparr>)
       n 2.0 True ce now) n now') = 1.0 \<and>
   avg_response_time (perf_of (update_provider_metrics
       (s\<lparr>performance_metrics := (performance_metrics s)(n := None)\<rparr>)
       n 2.0 True ce now) n now') = 1.1"
  by (simp add: perf_of_update_same) (simp add: perf_of_def new_ProviderPerformance_def)

lemma update_all_append:
  "update_all s (xs @ ys) = update_all (update_all s xs) ys"
  by (induction xs arbitrary: s) simp_all

lemma perf_in_range_init: "perf_in_range (ProviderSelector_init ps t0)"
proof -
  have "\<forall>r \<in> ran m. success_rate r = 1 \<and> avg_cost_efficiency r = 1 \<Longrightarrow>
        \<forall>r \<in> ran (init_metrics ks t0 m). success_rate r = 1 \<and> avg_cost_efficiency r = 1" for ks m
  proof (induction ks arbitrary: m)
    case Nil
    then show ?case by simp
  next
    case (Cons k ks)
    have "\<forall>r \<in> ran (m(k \<mapsto> new_ProviderPerformance k t0)). success_rate r = 1 \<and> avg_cost_efficiency r = 1"
      using Cons.prems by (auto simp: ran_def new_ProviderPerformance_def split: if_splits)
    from Cons.IH[OF this] show ?case by (simp only: init_metrics.simps)
  qed
  from this[of Map.empty "map fst ps"] show ?thesis
    by (simp add: perf_in_range_def ProviderSelector_init_def)
qed

lemma ema_range:
  fixes x y :: real
  assumes "0 \<le> x" "x \<le> 1" "0 \<le> y" "y \<le> 1"
  shows "0 \<le> 0.9 * x + 0.1 * y" "0.9 * x + 0.1 * y \<le> 1"
  using assms by simp_all

lemma perf_in_range_update:
  assumes inv: "perf_in_range s" and ce: "0 \<le> ce" "ce \<le> 1"
  shows "perf_in_range (update_provider_metrics s n rt ok ce now)"
proof -
  let ?r = "perf_of s n now"
  have old: "0 \<le> success_rate ?r \<and> success_rate ?r \<le> 1 \<and>
             0 \<le> avg_cost_efficiency ?r \<and> avg_cost_efficiency ?r \<le> 1"
  proof (cases "performance_metrics s n")
    case None
    then show ?thesis by (simp add: perf_of_def new_ProviderPerformance_def)
  next
    case (Some r)
    then have "r \<in> ran (performance_metrics s)" by (auto simp: ran_def)
    with inv Some show ?thesis by (simp add: perf_of_def perf_in_range_def)
  qed
  show ?thesis
    unfolding perf_in_range_def
  proof
    fix r assume "r \<in> ran (performance_metrics (update_provider_metrics s n rt ok ce now))"
    then obtain m where m: "performance_metrics (update_provider_metrics s n rt ok ce now) m = Some r"
      by (auto simp: ran_def)
    show "0 \<le> success_rate r \<and> success_rate r \<le> 1 \<and>
          0 \<le> avg_cost_efficiency r \<and> avg_cost_efficiency r \<le> 1"
    proof (cases "m = n")
      case True
      with m have "r = perf_of (update_provider_metrics s n rt ok ce now) n now"
        by (simp add: perf_of_def)
      then show ?thesis
        using old ce by (simp add: perf_of_update_same)
    next
      case False
      with m have "performance_metrics s m = Some r" by (simp add: metrics_update_other)
      then have "r \<in> ran (performance_metrics s)" by (auto simp: ran_def)
      with inv show ?thesis by (simp add: perf_in_range_def)
    qed
  qed
qed

lemma perf_in_range_update_all:
  "perf_in_range s \<Longrightarrow> \<forall>c \<in> set cs. 0 \<le> call_cost_efficiency c \<and> call_cost_efficiency c \<le> 1 \<Longrightarrow>
   perf_in_range (update_all s cs)"
  by (induction cs arbitrary: s) (simp_all add: perf_in_range_update)

lemma update_all_take_Suc:
  "k < length cs \<Longrightarrow>
   update_all s (take (Suc k) cs) =
     update_provider_metrics (update_all s (take k cs)) (call_name (cs ! k)) (call_response_time (cs ! k))
       (call_success (cs ! k)) (call_cost_efficiency (cs ! k)) (call_now (cs ! k))"
  by (simp add: take_Suc_conv_app_nth update_all_append)

text \<open>
  Claim C9. Starting from the tracker that \<open>__init__\<close> builds, after every prefix of a
  sequence of calls whose \<open>cost_efficiency\<close> arguments lie in \<open>[0, 1]\<close>, every record has
  \<open>success_rate\<close> and \<open>avg_cost_efficiency\<close> in \<open>[0, 1]\<close>; and each call adds exactly 1 to
  the \<open>request_count\<close> of the provider it names and leaves every other record as it was.
\<close>

theorem tracker_invariant:
  assumes "\<forall>c \<in> set calls. 0 \<le> call_cost_efficiency c \<and> call_cost_efficiency c \<le> 1"
  shows "(\<forall>k \<le> length calls. perf_in_range (update_all (ProviderSelector_init ps t0) (take k calls))) \<and>
         (\<forall>k < length calls.
            request_count (perf_of (update_all (ProviderSelector_init ps t0) (take (Suc k) calls))
                             (call_name (calls ! k)) t) =
              request_count (perf_of (update_all (ProviderSelector_init ps t0) (take k calls))
                               (call_name (calls ! k)) (call_now (calls ! k))) + 1 \<and>
            (\<forall>m. m \<noteq> call_name (calls ! k) \<longrightarrow>
               performance_metrics (update_all (ProviderSelector_init ps t0) (take (Suc k) calls)) m =
               performance_metrics (update_all (ProviderSelector_init ps t0) (take k calls)) m))"
proof (intro conjI allI impI)
  fix k assume "k \<le> length calls"
  have "\<forall>c \<in> set (take k calls). 0 \<le> call_cost_efficiency c \<and> call_cost_efficiency c \<le> 1"
    using assms by (meson in_set_takeD)
  then show "perf_in_range (update_all (ProviderSelector_init ps t0) (take k calls))"
    by (rule perf_in_range_update_all[OF perf_in_range_init])
next
  fix k assume "k < length calls"
  then show "request_count (perf_of (update_all (ProviderSelector_init ps t0) (take (Suc k) calls))
                             (call_name (calls ! k)) t) =
              request_count (perf_of (update_all (ProviderSelector_init ps t0) (take k calls))
                               (call_name (calls ! k)) (call_now (calls ! k))) + 1"
    by (simp only: update_all_take_Suc perf_of_update_same) simp
next
  fix k m assume "k < length calls" "m \<noteq> call_name (calls ! k)"
  then show "performance_metrics (update_all (ProviderSelector_init ps t0) (take (Suc k) calls)) m =
               performance_metrics (update_all (ProviderSelector_init ps t0) (take k calls)) m"
    by (simp add: update_all_take_Suc metrics_update_other del: update_all.simps)
qed

theorem tracker_invariant_witness:
  "list_all (\<lambda>c. 0 \<le> call_cost_efficiency c \<and> call_cost_efficiency c \<le> 1)
      [\<lparr>call_name = ''p1'', call_response_time = 2.0, call_success = True,
         call_cost_efficiency = 0.5, call_now = 1\<rparr>,
       \<lparr>call_name = ''new'', call_response_time = 0.3, call_success = False,
         call_cost_efficiency = 0, call_now = 2\<rparr>] \<and>
   perf_in_range (update_all example_selector
                  [\<lparr>call_name = ''p1'', call_response_time = 2.0, call_success = True,
                     call_cost_efficiency = 0.5, call_now = 1\<rparr>,
                   \<lparr>call_name = ''new'', call_response_time = 0.3, call_success = False,
                     call_cost_efficiency = 0, call_now = 2\<rparr>]) \<and>
   request_count (perf_of (update_all example_selector
                  [\<lparr>call_name = ''p1'', call_response_time = 2.0, call_success = True,
                     call_cost_efficiency = 0.5, call_now = 1\<rparr>,
                   \<lparr>call_name = ''new'', call_response_time = 0.3, call_success = False,
                     call_cost_efficiency = 0, call_now = 2\<rparr>]) ''new'' 0) = 1"
proof -
  let ?calls = "[\<lparr>call_name = ''p1'', call_response_time = 2.0, call_success = True,
                     call_cost_efficiency = 0.5, call_now = 1\<rparr>,
                   \<lparr>call_name = ''new'', call_response_time = 0.3, call_success = False,
                     call_cost_efficiency = 0, call_now = 2::real\<rparr>]"
  have h: "\<forall>c \<in> set ?calls. 0 \<le> call_cost_efficiency c \<and> call_cost_efficiency c \<le> 1"
    by simp
  note t = tracker_invariant[OF h, of "[(''p1'', example_P1), (''p2'', example_P2), (''p3'', example_P3)]" 0 0]
  from t have "perf_in_range (update_all example_selector (take 2 ?calls))"
    unfolding example_selector_def by (elim conjE allE[of _ 2]) simp
  moreover
  from t have "request_count (perf_of (update_all example_selector (take (Suc 1) ?calls)) ''new'' 0) =
         request_count (perf_of (update_all example_selector (take 1 ?calls)) ''new'' 2) + 1"
    unfolding example_selector_def by (elim conjE allE[of _ 1]) simp
  then have "request_count (perf_of (update_all example_selector ?calls) ''new'' 0) = 1"
    by (simp add: example_selector_def ProviderSelector_init_def update_provider_metrics_def
        perf_of_def new_ProviderPerformance_def Let_def)
  ultimately show ?thesis using h by simp
qed

section \<open>Properties of provider selection\<close>

lemma provider_passes_True:
  "provider_passes p constraints = Inr True \<Longrightarrow>
   \<not> health_score p < 0.1 \<and> \<not> (api_key p = [] \<and> tier p \<noteq> UNOFFICIAL)"
  by (auto simp: provider_passes_def split: if_splits)

lemma filter_loop_sound:
  "filter_loop ps constraints = Inr available \<Longrightarrow> p \<in> set available \<Longrightarrow>
   p \<in> set ps \<and> provider_passes p constraints = Inr True"
proof (induction ps arbitrary: available)
  case Nil
  then show ?case by simp
next
  case (Cons q ps)
  from Cons.prems(1) obtain keep rest where
    k: "provider_passes q constraints = Inr keep" and
    r: "filter_loop ps constraints = Inr rest" and
    a: "available = (if keep then q # rest else rest)"
    by (auto split: sum.splits)
  show ?case
  proof (cases "keep \<and> p = q")
    case True
    with k show ?thesis by simp
  next
    case False
    with a Cons.prems(2) have "p \<in> set rest" by (auto split: if_splits)
    from Cons.IH[OF r this] show ?thesis by simp
  qed
qed

lemma score_loop_fst:
  "score_loop s ps sc context constraints = Inr provider_scores \<Longrightarrow> map fst provider_scores = ps"
  by (induction ps arbitrary: provider_scores) (auto split: sum.splits)

lemma select_provider_mem:
  assumes "fst (select_provider s sc context constraints) = Inr (Some p)"
  shows "\<exists>available. filter_available_providers s constraints = Inr available \<and> p \<in> set available"
proof -
  from assms obtain available where
    f: "filter_available_providers s constraints = Inr available" and ne: "available \<noteq> []"
    by (auto simp: select_provider_def split: sum.splits if_splits)
  from assms f ne obtain provider_scores where
    sl: "score_loop s available sc context constraints = Inr provider_scores"
    by (auto simp: select_provider_def split: sum.splits)
  from assms f ne sl obtain best rest where
    so: "sort_scores provider_scores = best # rest" and b: "p = fst best"
    by (auto simp: select_provider_def split: list.splits)
  have "best \<in> set (sort_scores provider_scores)" using so by simp
  then have "best \<in> set provider_scores" by (simp add: sort_scores_def)
  then have "fst best \<in> set (map fst provider_scores)" by simp
  with score_loop_fst[OF sl] b have "p \<in> set available" by simp
  with f show ?thesis by blast
qed

lemmas example_defs =
  example_selector_def ProviderSelector_init_def example_P1_def example_P2_def example_P3_def
  example_score_def new_ProviderPerformance_def

lemmas filter_defs =
  filter_available_providers_def provider_passes_def constraints_pass_def exceeds_def
  tier_excluded_def model_missing_def dict_get_def num_gt_def ProviderTier_of_def

lemmas score_defs =
  calculate_provider_score_def calculate_capability_score_def calculate_performance_score_def
  calculate_cost_score_def calculate_reliability_score_def weights_def max_cost_def num_mul_def
  Let_def

text \<open>
  Claim C2. Whatever the complexity score, the context and the constraints, a provider that
  \<open>select_provider\<close> returns has neither a \<open>health_score\<close> below 0.1 nor an empty
  \<open>api_key\<close> with a tier other than \<open>UNOFFICIAL\<close>: no such provider is in the list the
  filter step returns, so none reaches scoring.
\<close>

theorem select_provider_filtered:
  "(\<forall>p. fst (select_provider s sc context constraints) = Inr (Some p) \<longrightarrow>
        \<not> health_score p < 0.1 \<and> \<not> (api_key p = [] \<and> tier p \<noteq> UNOFFICIAL)) \<and>
   (\<forall>available. filter_available_providers s constraints = Inr available \<longrightarrow>
        (\<forall>p \<in> set available. \<not> health_score p < 0.1 \<and> \<not> (api_key p = [] \<and> tier p \<noteq> UNOFFICIAL)))"
proof -
  have kept: "\<not> health_score p < 0.1 \<and> \<not> (api_key p = [] \<and> tier p \<noteq> UNOFFICIAL)"
    if "filter_available_providers s constraints = Inr available" "p \<in> set available"
    for available p
  proof -
    from that have "filter_loop (map snd (providers s)) constraints = Inr available" "p \<in> set available"
      by (simp_all add: filter_available_providers_def)
    from filter_loop_sound[OF this] have "provider_passes p constraints = Inr True" by simp
    then show ?thesis by (rule provider_passes_True)
  qed
  have "\<not> health_score p < 0.1 \<and> \<not> (api_key p = [] \<and> tier p \<noteq> UNOFFICIAL)"
    if "fst (select_provider s sc context constraints) = Inr (Some p)" for p
    using select_provider_mem[OF that] kept by blast
  with kept show ?thesis by blast
qed

theorem select_provider_filtered_witness:
  "fst (select_provider example_selector example_score None None) = Inr (Some example_P1) \<and>
   \<not> health_score example_P1 < 0.1 \<and>
   \<not> (api_key example_P1 = [] \<and> tier example_P1 \<noteq> UNOFFICIAL) \<and>
   health_score example_P3 < 0.1"
proof -
  have sel: "fst (select_provider example_selector example_score None None) = Inr (Some example_P1)"
    by (simp add: select_provider_def sort_scores_def example_defs filter_defs score_defs)
  have "health_score example_P3 < 0.1" by (simp add: example_P3_def)
  with sel select_provider_filtered[of example_selector example_score None None]
  show ?thesis by blast
qed

lemma exceeds_wf: "wf_bound (dict_get c k) \<Longrightarrow> \<exists>b. exceeds c k x = Inr b"
  by (auto simp: exceeds_def wf_bound_def num_gt_def)

lemma tiers_of_wf:
  "list_all (\<lambda>x. x \<in> set (map PStr [''official'', ''community'', ''unofficial''])) vs \<Longrightarrow>
   \<exists>ts. tiers_of vs = Inr ts"
proof (induction vs)
  case Nil
  then show ?case by simp
next
  case (Cons v vs)
  then obtain ts where "tiers_of vs = Inr ts" by auto
  moreover from Cons.prems have "\<exists>t. ProviderTier_of v = Inr t"
    by (auto simp: ProviderTier_of_def)
  ultimately show ?case by auto
qed

lemma tier_excluded_wf: "wf_tiers (dict_get c ''allowed_tiers'') \<Longrightarrow> \<exists>b. tier_excluded c t = Inr b"
proof (cases "truthy (dict_get c ''allowed_tiers'')")
  case False
  then show ?thesis by (auto simp: tier_excluded_def)
next
  case True
  assume "wf_tiers (dict_get c ''allowed_tiers'')"
  with True obtain vs where v: "dict_get c ''allowed_tiers'' = PList vs"
    and a: "list_all (\<lambda>x. x \<in> set (map PStr [''official'', ''community'', ''unofficial''])) vs"
    by (auto simp: wf_tiers_def split: pyval.splits)
  from tiers_of_wf[OF a] obtain ts where "tiers_of vs = Inr ts" by blast
  with v True show ?thesis by (simp add: tier_excluded_def)
qed

lemma constraints_pass_wf:
  assumes "wf_constraints (Some c)"
  shows "\<exists>b. constraints_pass p c = Inr b"
proof -
  from assms have w: "wf_bound (dict_get c ''max_cost_per_1k'')" "wf_bound (dict_get c ''max_timeout'')"
    "wf_tiers (dict_get c ''allowed_tiers'')"
    by (simp_all add: wf_constraints_def)
  from exceeds_wf[OF w(1)] obtain b1 where b1: "exceeds c ''max_cost_per_1k'' (cost_per_1k_tokens p) = Inr b1"
    by blast
  from exceeds_wf[OF w(2)] obtain b2 where b2: "exceeds c ''max_timeout'' (real_of_int (timeout p)) = Inr b2"
    by blast
  from tier_excluded_wf[OF w(3)] obtain b3 where b3: "tier_excluded c (tier p) = Inr b3"
    by blast
  show ?thesis by (auto simp: constraints_pass_def b1 b2 b3)
qed

lemma provider_passes_wf:
  "wf_constraints constraints \<Longrightarrow> \<exists>b. provider_passes p constraints = Inr b"
  using constraints_pass_wf by (cases constraints) (auto simp: provider_passes_def)

lemma filter_loop_wf:
  "wf_constraints constraints \<Longrightarrow> \<exists>available. filter_loop ps constraints = Inr available"
proof (induction ps)
  case Nil
  then show ?case by simp
next
  case (Cons p ps)
  then obtain rest where "filter_loop ps constraints = Inr rest" by blast
  moreover from provider_passes_wf[OF Cons.prems] obtain b where "provider_passes p constraints = Inr b"
    by blast
  ultimately show ?case by simp
qed

text \<open>
  Claim C3. With well-formed constraints the filter step returns a list and raises nothing;
  when that list is empty, \<open>select_provider\<close> returns \<open>None\<close> as an ordinary result and
  leaves the selector unchanged.
\<close>

theorem select_provider_empty:
  assumes "wf_constraints constraints"
  shows "(\<exists>available. filter_available_providers s constraints = Inr available) \<and>
         (filter_available_providers s constraints = Inr [] \<longrightarrow>
            select_provider s sc context constraints = (Inr None, s))"
  using filter_loop_wf[OF assms] by (simp add: filter_available_providers_def select_provider_def)

theorem select_provider_empty_witness:
  "wf_constraints (Some [(''allowed_tiers'', PList [PStr ''unofficial''])]) \<and>
   filter_available_providers example_selector (Some [(''allowed_tiers'', PList [PStr ''unofficial''])]) = Inr [] \<and>
   select_provider example_selector example_score None (Some [(''allowed_tiers'', PList [PStr ''unofficial''])])
     = (Inr None, example_selector)"
proof -
  have w: "wf_constraints (Some [(''allowed_tiers'', PList [PStr ''unofficial''])])"
    by (simp add: wf_constraints_def wf_bound_def wf_tiers_def dict_get_def)
  have f: "filter_available_providers example_selector (Some [(''allowed_tiers'', PList [PStr ''unofficial''])]) = Inr []"
    by (simp add: example_defs filter_defs)
  from select_provider_empty[OF w, of example_selector example_score None] w f
  show ?thesis by simp
qed

section \<open>The selector after a selection\<close>

lemma filter_loop_st_eq:
  "filter_loop_st ps constraints s = (filter_loop ps constraints, s)"
  by (induction ps) (simp_all split: sum.splits)

lemma filter_available_providers_st_eq:
  "filter_available_providers_st s constraints = (filter_available_providers s constraints, s)"
  by (simp add: filter_available_providers_st_def filter_available_providers_def filter_loop_st_eq)

lemma calculate_performance_score_st_eq:
  "calculate_performance_score_st s p = (calculate_performance_score s p, s)"
  by (simp add: calculate_performance_score_st_def calculate_performance_score_def Let_def
      split: option.splits)

lemma calculate_provider_score_st_eq:
  "calculate_provider_score_st s p sc context constraints =
     (calculate_provider_score s p sc context constraints, s)"
  by (simp add: calculate_provider_score_st_def calculate_provider_score_def
      calculate_capability_score_st_def calculate_performance_score_st_eq
      calculate_cost_score_st_def calculate_reliability_score_st_def Let_def
      split: sum.splits prod.splits)

lemma score_loop_st_eq:
  "score_loop_st s ps sc context constraints = (score_loop s ps sc context constraints, s)"
  by (induction ps) (simp_all add: calculate_provider_score_st_eq split: sum.splits)

text \<open>
  Claim C8. \<open>select_provider\<close> leaves the shared state unchanged: the selector that comes
  out of the call, after the filter, every scoring helper on every available provider and the
  sort have run, is the selector that went in, with the same registry, the same
  \<open>ProviderConfig\<close> records and the same \<open>ProviderPerformance\<close> records, whether the call
  returns a provider, returns \<open>None\<close> or raises. The same holds of each helper, and the
  result of the call is the one \<open>select_provider\<close> computes.
\<close>

theorem select_provider_st_frame:
  "snd (select_provider_st s sc context constraints) = s \<and>
   snd (filter_available_providers_st s constraints) = s \<and>
   snd (calculate_provider_score_st s p sc context constraints) = s \<and>
   snd (calculate_capability_score_st s p sc) = s \<and>
   snd (calculate_performance_score_st s p) = s \<and>
   snd (calculate_cost_score_st s p constraints) = s \<and>
   snd (calculate_reliability_score_st s p) = s \<and>
   fst (select_provider_st s sc context constraints) = fst (select_provider s sc context constraints)"
  by (simp add: select_provider_st_def select_provider_def filter_available_providers_st_eq
      score_loop_st_eq calculate_provider_score_st_eq calculate_performance_score_st_eq
      calculate_capability_score_st_def calculate_cost_score_st_def calculate_reliability_score_st_def
      split: sum.splits list.splits)

section \<open>Monotonicity of the cost score\<close>

lemma num_mul_scale: "num_mul 1 v = Inr w \<Longrightarrow> num_mul x v = Inr (x * w)"
  by (cases v) (auto simp: num_mul_def split: if_splits)

lemma num_mul_error: "num_mul 1 v = Inl e \<Longrightarrow> num_mul x v = Inl e"
  by (cases v) (auto simp: num_mul_def split: if_splits)

lemma truthy_num_mul: "truthy v \<Longrightarrow> num_mul 1 v = Inr w \<Longrightarrow> w \<noteq> 0"
  by (cases v) (auto simp: num_mul_def split: if_splits)

lemma weights_cost_pos:
  "weights context = (wc, wp, wk, wr) \<Longrightarrow> 0 < wk"
  by (auto simp: weights_def split: option.splits if_splits)

lemma base_cost_mono:
  fixes c1 c2 :: real
  assumes "c1 < c2"
  shows "max 0.0 (1.0 - c2 / max_cost) \<le> max 0.0 (1.0 - c1 / max_cost)"
  using assms by (simp add: max_cost_def max_def)

text \<open>The factor that \<open>calculate_cost_score\<close> applies to the base cost score.\<close>

lemma cost_score_factor:
  assumes "budget_ok constraints"
  shows "\<exists>w. 0 < w \<and> (\<forall>p. calculate_cost_score p constraints =
                           Inr (max 0.0 (1.0 - cost_per_1k_tokens p / max_cost) * w))"
proof (cases constraints)
  case None
  then have "\<forall>p. calculate_cost_score p constraints =
                           Inr (max 0.0 (1.0 - cost_per_1k_tokens p / max_cost) * 1)"
    by (simp add: calculate_cost_score_def)
  then show ?thesis by (intro exI[of _ 1]) simp
next
  case (Some c)
  show ?thesis
  proof (cases "c \<noteq> [] \<and> truthy (dict_get c ''budget_weight'')")
    case False
    with Some have "\<forall>p. calculate_cost_score p constraints =
                           Inr (max 0.0 (1.0 - cost_per_1k_tokens p / max_cost) * 1)"
      by (auto simp: calculate_cost_score_def)
    then show ?thesis by (intro exI[of _ 1]) simp
  next
    case True
    with assms Some obtain w where w: "num_mul 1 (dict_get c ''budget_weight'') = Inr w" "0 \<le> w"
      by (auto simp: budget_ok_def split: sum.splits)
    from True truthy_num_mul[OF _ w(1)] have "w \<noteq> 0" by simp
    with w(2) have "0 < w" by simp
    moreover from True Some num_mul_scale[OF w(1)] have "\<forall>p. calculate_cost_score p constraints =
                           Inr (max 0.0 (1.0 - cost_per_1k_tokens p / max_cost) * w)"
      by (simp add: calculate_cost_score_def)
    ultimately show ?thesis by blast
  qed
qed

text \<open>
  Claim C4, as stated, fails: the cost score is floored at 0, so two providers that differ
  only in a cost of 0.01 and of 0.02 have the same cost score 0; and a negative
  \<open>budget_weight\<close> turns the order around, the provider with the larger cost getting the
  larger cost score and the larger total score.
\<close>

theorem cost_score_counterexample:
  "calculate_cost_score (example_P1\<lparr>cost_per_1k_tokens := 0.01\<rparr>) None = Inr 0 \<and>
   calculate_cost_score (example_P1\<lparr>cost_per_1k_tokens := 0.02\<rparr>) None = Inr 0 \<and>
   calculate_cost_score (example_P1\<lparr>cost_per_1k_tokens := 0\<rparr>)
     (Some [(''budget_weight'', PInt (- 1))]) = Inr (- 1) \<and>
   calculate_cost_score (example_P1\<lparr>cost_per_1k_tokens := 0.005\<rparr>)
     (Some [(''budget_weight'', PInt (- 1))]) = Inr (- 0.5) \<and>
   calculate_provider_score example_selector (example_P1\<lparr>cost_per_1k_tokens := 0\<rparr>)
     example_score None (Some [(''budget_weight'', PInt (- 1))]) = Inr 0.34071 \<and>
   calculate_provider_score example_selector (example_P1\<lparr>cost_per_1k_tokens := 0.005\<rparr>)
     example_score None (Some [(''budget_weight'', PInt (- 1))]) = Inr 0.46571"
  by (simp add: example_defs score_defs dict_get_def int_overflows_def)

text \<open>
  Claim C4, amended. Let two providers differ only in \<open>cost_per_1k_tokens\<close>, and let
  \<open>budget_weight\<close> be missing, falsy or a number that is not negative and that a float can be
  multiplied by. Then both cost scores and both total scores are computed without an error,
  the provider with the strictly larger cost has a cost score that is not larger, and its
  total selection score is not larger. No strict decrease is claimed: the floor at 0 and the
  rounding of doubles both make equal scores of different costs.
\<close>

theorem cost_score_monotone:
  assumes "budget_ok constraints" and "cost_per_1k_tokens p < c2"
  shows "\<exists>x1 x2 t1 t2.
     calculate_cost_score p constraints = Inr x1 \<and>
     calculate_cost_score (p\<lparr>cost_per_1k_tokens := c2\<rparr>) constraints = Inr x2 \<and>
     x2 \<le> x1 \<and>
     calculate_provider_score s p sc context constraints = Inr t1 \<and>
     calculate_provider_score s (p\<lparr>cost_per_1k_tokens := c2\<rparr>) sc context constraints = Inr t2 \<and>
     t2 \<le> t1"
proof -
  from cost_score_factor[OF assms(1)] obtain w where w: "0 < w"
    and cs: "\<And>q. calculate_cost_score q constraints =
                Inr (max 0.0 (1.0 - cost_per_1k_tokens q / max_cost) * w)"
    by blast
  let ?b1 = "max 0.0 (1.0 - cost_per_1k_tokens p / max_cost)"
  let ?b2 = "max 0.0 (1.0 - c2 / max_cost)"
  obtain wc wp wk wr where ws: "weights context = (wc, wp, wk, wr)"
    by (cases "weights context") auto
  from weights_cost_pos[OF ws] have wk: "0 < wk" .
  have le: "?b2 * w \<le> ?b1 * w"
    using base_cost_mono[OF assms(2)] w by simp
  have same: "calculate_capability_score (p\<lparr>cost_per_1k_tokens := c2\<rparr>) sc = calculate_capability_score p sc"
    "calculate_performance_score s (p\<lparr>cost_per_1k_tokens := c2\<rparr>) = calculate_performance_score s p"
    "calculate_reliability_score (p\<lparr>cost_per_1k_tokens := c2\<rparr>) = calculate_reliability_score p"
    by (simp_all add: calculate_capability_score_def calculate_performance_score_def
          calculate_reliability_score_def)
  let ?rest = "calculate_capability_score p sc * wc + calculate_performance_score s p * wp"
  have t1: "calculate_provider_score s p sc context constraints =
              Inr (?rest + ?b1 * w * wk + calculate_reliability_score p * wr)"
    by (simp add: calculate_provider_score_def cs ws Let_def)
  have t2: "calculate_provider_score s (p\<lparr>cost_per_1k_tokens := c2\<rparr>) sc context constraints =
              Inr (?rest + ?b2 * w * wk + calculate_reliability_score p * wr)"
    by (simp add: calculate_provider_score_def cs ws same Let_def)
  have tot: "?rest + ?b2 * w * wk + calculate_reliability_score p * wr
               \<le> ?rest + ?b1 * w * wk + calculate_reliability_score p * wr"
    using mult_right_mono[OF le, of wk] wk by simp
  have c2': "calculate_cost_score (p\<lparr>cost_per_1k_tokens := c2\<rparr>) constraints = Inr (?b2 * w)"
    by (simp add: cs)
  from cs[of p] c2' le t1 t2 tot show ?thesis by blast
qed

theorem cost_score_monotone_witness:
  "budget_ok (Some [(''budget_weight'', PFloat 0.5)]) \<and>
   cost_per_1k_tokens example_P1 < 0.005 \<and>
   calculate_cost_score example_P1 (Some [(''budget_weight'', PFloat 0.5)]) = Inr 0.495 \<and>
   calculate_cost_score (example_P1\<lparr>cost_per_1k_tokens := 0.005\<rparr>)
     (Some [(''budget_weight'', PFloat 0.5)]) = Inr 0.25 \<and>
   (\<exists>t1 t2.
      calculate_provider_score example_selector example_P1 example_score None
        (Some [(''budget_weight'', PFloat 0.5)]) = Inr t1 \<and>
      calculate_provider_score example_selector (example_P1\<lparr>cost_per_1k_tokens := 0.005\<rparr>)
        example_score None (Some [(''budget_weight'', PFloat 0.5)]) = Inr t2 \<and> t2 \<le> t1)"
proof -
  have b: "budget_ok (Some [(''budget_weight'', PFloat 0.5)])"
    by (simp add: budget_ok_def dict_get_def num_mul_def)
  have c: "cost_per_1k_tokens example_P1 < 0.005"
    by (simp add: example_P1_def)
  have x1: "calculate_cost_score example_P1 (Some [(''budget_weight'', PFloat 0.5)]) = Inr 0.495"
    by (simp add: example_defs score_defs dict_get_def)
  have x2: "calculate_cost_score (example_P1\<lparr>cost_per_1k_tokens := 0.005\<rparr>)
     (Some [(''budget_weight'', PFloat 0.5)]) = Inr 0.25"
    by (simp add: example_defs score_defs dict_get_def)
  from cost_score_monotone[OF b c, of example_selector example_score None] b c x1 x2
  show ?thesis by auto
qed

section \<open>Empty, well-formed and malformed constraint values\<close>

lemma dict_get_del:
  "dict_get (dict_del k c) k' = (if k' = k then PNone else dict_get c k')"
proof (induction c)
  case Nil
  then show ?case by (simp add: dict_del_def dict_get_def)
next
  case (Cons kv c)
  then show ?case by (cases kv) (auto simp: dict_del_def dict_get_def)
qed

lemma dict_get_Nil: "dict_get [] k = PNone"
  by (simp add: dict_get_def)

lemma constraints_pass_Nil: "constraints_pass p [] = Inr True"
  by (simp add: constraints_pass_def exceeds_def tier_excluded_def model_missing_def dict_get_def)

lemma constraints_pass_cong:
  assumes "\<And>k. k \<in> {''max_cost_per_1k'', ''max_timeout'', ''allowed_tiers'', ''required_model''} \<Longrightarrow>
             dict_get c k = dict_get c' k \<or> (\<not> truthy (dict_get c k) \<and> \<not> truthy (dict_get c' k))"
  shows "constraints_pass p c = constraints_pass p c'"
proof -
  have e1: "exceeds c ''max_cost_per_1k'' x = exceeds c' ''max_cost_per_1k'' x" for x
    using assms[of "''max_cost_per_1k''"] by (auto simp: exceeds_def)
  have e2: "exceeds c ''max_timeout'' x = exceeds c' ''max_timeout'' x" for x
    using assms[of "''max_timeout''"] by (auto simp: exceeds_def)
  have e3: "tier_excluded c t = tier_excluded c' t" for t
    using assms[of "''allowed_tiers''"] by (auto simp: tier_excluded_def)
  have e4: "model_missing c ms = model_missing c' ms" for ms
    using assms[of "''required_model''"] by (auto simp: model_missing_def)
  show ?thesis by (simp add: constraints_pass_def e1 e2 e3 e4 cong: sum.case_cong if_cong)
qed

lemma constraints_pass_all_falsy:
  assumes "\<And>k. \<not> truthy (dict_get c k)"
  shows "constraints_pass p c = Inr True"
proof -
  have "constraints_pass p c = constraints_pass p []"
    by (rule constraints_pass_cong) (simp add: assms dict_get_Nil)
  then show ?thesis by (simp add: constraints_pass_Nil)
qed

lemma provider_passes_del:
  assumes "\<not> truthy (dict_get c k)"
  shows "provider_passes p (Some c) = provider_passes p (Some (dict_del k c))"
proof -
  have eq: "constraints_pass p c = constraints_pass p (dict_del k c)"
    by (rule constraints_pass_cong) (use assms in \<open>auto simp: dict_get_del\<close>)
  have nil: "constraints_pass p c = Inr True" if "dict_del k c = []"
  proof (rule constraints_pass_all_falsy)
    fix k'
    from that have "dict_get (dict_del k c) k' = PNone" by (simp add: dict_get_def)
    then show "\<not> truthy (dict_get c k')"
      using assms by (cases "k' = k") (simp_all add: dict_get_del)
  qed
  have nil': "dict_del k c = []" if "c = []"
    using that by (simp add: dict_del_def)
  show ?thesis
    using eq nil nil' by (auto simp: provider_passes_def)
qed

lemma filter_loop_cong:
  "(\<And>p. provider_passes p c = provider_passes p c') \<Longrightarrow> filter_loop ps c = filter_loop ps c'"
  by (induction ps) (simp_all cong: sum.case_cong)

lemma empty_value_falsy: "empty_value v \<Longrightarrow> \<not> truthy v"
  by (auto simp: empty_value_def)

lemma calculate_cost_score_del:
  assumes "\<not> truthy (dict_get c k)"
  shows "calculate_cost_score p (Some c) = calculate_cost_score p (Some (dict_del k c))"
proof (cases "k = ''budget_weight''")
  case True
  with assms show ?thesis by (simp add: calculate_cost_score_def dict_get_del)
next
  case False
  then have g: "dict_get (dict_del k c) ''budget_weight'' = dict_get c ''budget_weight''"
    by (simp add: dict_get_del)
  have "\<not> truthy (dict_get c ''budget_weight'')" if "dict_del k c = []"
  proof -
    from that have "dict_get (dict_del k c) ''budget_weight'' = PNone" by (simp add: dict_get_Nil)
    with g show ?thesis by simp
  qed
  moreover have "\<not> truthy (dict_get c ''budget_weight'')" if "c = []"
    using that by (simp add: dict_get_Nil)
  ultimately show ?thesis by (auto simp: calculate_cost_score_def g Let_def)
qed

lemma score_loop_cong:
  "(\<And>p. calculate_provider_score s p sc context c = calculate_provider_score s p sc context c') \<Longrightarrow>
   score_loop s ps sc context c = score_loop s ps sc context c'"
  by (induction ps) (simp_all cong: sum.case_cong)

lemma select_provider_del:
  assumes "\<not> truthy (dict_get c k)"
  shows "select_provider s sc context (Some c) = select_provider s sc context (Some (dict_del k c))"
proof -
  have "provider_passes p (Some c) = provider_passes p (Some (dict_del k c))" for p
    using assms by (rule provider_passes_del)
  then have "filter_loop ps (Some c) = filter_loop ps (Some (dict_del k c))" for ps
    by (rule filter_loop_cong)
  then have f: "filter_available_providers s (Some c) = filter_available_providers s (Some (dict_del k c))"
    by (simp add: filter_available_providers_def)
  have "calculate_provider_score s p sc context (Some c) =
        calculate_provider_score s p sc context (Some (dict_del k c))" for p
    by (simp add: calculate_provider_score_def calculate_cost_score_del[OF assms])
  then have "score_loop s ps sc context (Some c) = score_loop s ps sc context (Some (dict_del k c))" for ps
    by (rule score_loop_cong)
  with f show ?thesis by (simp add: select_provider_def cong: sum.case_cong if_cong)
qed

lemma provider_passes_errors:
  assumes "provider_passes p constraints = Inl e"
  shows "e = TypeError \<or> e = ValueError"
proof -
  have t: "tiers_of vs = Inl e' \<Longrightarrow> e' = ValueError" for vs e'
    by (induction vs) (auto simp: ProviderTier_of_def split: if_splits sum.splits)
  have i: "py_iter v = Inl e' \<Longrightarrow> e' = TypeError" for v e'
    by (cases v) auto
  have x: "exceeds c k y = Inl e' \<Longrightarrow> e' = TypeError" for c k y e'
    by (auto simp: exceeds_def num_gt_def split: if_splits option.splits)
  have te: "tier_excluded c tr = Inl e' \<Longrightarrow> e' = TypeError \<or> e' = ValueError" for c tr e'
    using t i by (auto simp: tier_excluded_def split: if_splits sum.splits)
  from assms obtain c where "constraints_pass p c = Inl e"
    by (auto simp: provider_passes_def split: if_splits option.splits)
  then show ?thesis
    using x te by (auto simp: constraints_pass_def split: sum.splits if_splits)
qed

lemma filter_loop_raises:
  assumes "\<exists>p \<in> set ps. \<exists>e. provider_passes p constraints = Inl e"
  shows "\<exists>e. filter_loop ps constraints = Inl e \<and> (e = TypeError \<or> e = ValueError)"
  using assms
proof (induction ps)
  case Nil
  then show ?case by simp
next
  case (Cons q ps)
  show ?case
  proof (cases "provider_passes q constraints")
    case (Inl e)
    with provider_passes_errors[OF Inl] show ?thesis by simp
  next
    case (Inr keep)
    with Cons.prems have "\<exists>p \<in> set ps. \<exists>e. provider_passes p constraints = Inl e" by auto
    from Cons.IH[OF this] Inr show ?thesis by auto
  qed
qed

lemma basic_ok_passes:
  "basic_ok p \<Longrightarrow> c \<noteq> [] \<Longrightarrow> provider_passes p (Some c) = constraints_pass p c"
  by (auto simp: basic_ok_def provider_passes_def)

lemma malformed_nonempty: "malformed_bound (dict_get c k) \<Longrightarrow> c \<noteq> []"
  by (auto simp: malformed_bound_def dict_get_def)

lemma malformed_exceeds: "malformed_bound (dict_get c k) \<Longrightarrow> exceeds c k x = Inl TypeError"
  by (simp add: malformed_bound_def exceeds_def num_gt_def)

lemma tiers_of_unrecognised:
  "\<not> list_all recognised_tier vs \<Longrightarrow> tiers_of vs = Inl ValueError"
proof (induction vs)
  case Nil
  then show ?case by simp
next
  case (Cons v vs)
  show ?case
  proof (cases "recognised_tier v")
    case True
    with Cons have "tiers_of vs = Inl ValueError" by simp
    then show ?thesis by (auto simp: ProviderTier_of_def split: sum.splits if_splits)
  next
    case False
    then have "ProviderTier_of v = Inl ValueError"
      by (auto simp: recognised_tier_def ProviderTier_of_def)
    then show ?thesis by simp
  qed
qed

lemma calculate_cost_score_wf:
  assumes "wf_budget constraints"
  shows "\<exists>x. calculate_cost_score p constraints = Inr x"
proof (cases constraints)
  case None
  then show ?thesis by (simp add: calculate_cost_score_def)
next
  case (Some c)
  show ?thesis
  proof (cases "c \<noteq> [] \<and> truthy (dict_get c ''budget_weight'')")
    case False
    with Some show ?thesis by (auto simp: calculate_cost_score_def)
  next
    case True
    with assms Some obtain w where "num_mul 1 (dict_get c ''budget_weight'') = Inr w"
      by (auto simp: wf_budget_def split: sum.splits)
    from num_mul_scale[OF this] True Some show ?thesis
      by (simp add: calculate_cost_score_def)
  qed
qed

lemma score_loop_wf:
  assumes "wf_budget constraints"
  shows "\<exists>provider_scores. score_loop s ps sc context constraints = Inr provider_scores \<and>
                            length provider_scores = length ps"
proof (induction ps)
  case Nil
  then show ?case by simp
next
  case (Cons p ps)
  from calculate_cost_score_wf[OF assms] obtain x where "calculate_cost_score p constraints = Inr x"
    by blast
  then have "\<exists>t. calculate_provider_score s p sc context constraints = Inr t"
    by (simp add: calculate_provider_score_def split: prod.splits)
  with Cons show ?case by auto
qed

lemma select_provider_wf:
  assumes "wf_constraints constraints" "wf_budget constraints"
  shows "\<exists>r. fst (select_provider s sc context constraints) = Inr r"
proof -
  from filter_loop_wf[OF assms(1)] obtain available where
    f: "filter_available_providers s constraints = Inr available"
    by (auto simp: filter_available_providers_def)
  show ?thesis
  proof (cases "available = []")
    case True
    with f show ?thesis by (simp add: select_provider_def)
  next
    case False
    from score_loop_wf[OF assms(2)] obtain provider_scores where
      sl: "score_loop s available sc context constraints = Inr provider_scores"
      and len: "length provider_scores = length available"
      by blast
    have "length (sort_scores provider_scores) = length available"
      using len by (simp add: sort_scores_def)
    with False obtain best rest where "sort_scores provider_scores = best # rest"
      by (cases "sort_scores provider_scores") auto
    with f sl False show ?thesis by (simp add: select_provider_def)
  qed
qed

text \<open>
  Claim C6, as stated, fails: an unrecognised tier string in \<open>allowed_tiers\<close> makes
  \<open>select_provider\<close> raise a \<open>ValueError\<close>, and a cost or timeout bound that is a string
  makes it raise a \<open>TypeError\<close>; the filter has no handler for either.
\<close>

theorem malformed_constraint_raises:
  "fst (select_provider example_selector example_score None
          (Some [(''allowed_tiers'', PList [PStr ''premium''])])) = Inl ValueError \<and>
   fst (select_provider example_selector example_score None
          (Some [(''max_cost_per_1k'', PStr ''cheap'')])) = Inl TypeError \<and>
   fst (select_provider example_selector example_score None
          (Some [(''max_timeout'', PStr ''fast'')])) = Inl TypeError"
  by (simp add: select_provider_def example_defs filter_defs)

text \<open>
  Claim C6, amended. A constraint field whose value is missing, \<open>None\<close> or an empty string,
  list or dict is ignored for that field only: \<open>select_provider\<close> does what it does for the
  constraints without that field. When every bound that is present is a number,
  \<open>allowed_tiers\<close> is a list of recognised tier strings and \<open>budget_weight\<close> is a number
  that a float can be multiplied by, \<open>select_provider\<close> does not raise. A truthy malformed
  value is not ignored. For a provider that passes the key and health checks: a truthy cost
  bound that is no number raises a \<open>TypeError\<close>; so does such a timeout bound once the cost
  bound lets the provider through; and an \<open>allowed_tiers\<close> list with an unrecognised entry
  raises a \<open>ValueError\<close> once both bounds let it through. And when the filter's loop body
  raises on some provider of the registry, \<open>select_provider\<close> raises a \<open>TypeError\<close> or a
  \<open>ValueError\<close>.
\<close>

theorem malformed_constraint_behaviour:
  "(empty_value (dict_get c k) \<longrightarrow>
      select_provider s sc context (Some c) = select_provider s sc context (Some (dict_del k c))) \<and>
   (wf_constraints (Some c) \<and> wf_budget (Some c) \<longrightarrow>
      (\<exists>r. fst (select_provider s sc context (Some c)) = Inr r)) \<and>
   (basic_ok p \<and> malformed_bound (dict_get c ''max_cost_per_1k'') \<longrightarrow>
      provider_passes p (Some c) = Inl TypeError) \<and>
   (basic_ok p \<and> exceeds c ''max_cost_per_1k'' (cost_per_1k_tokens p) = Inr False \<and>
    malformed_bound (dict_get c ''max_timeout'') \<longrightarrow>
      provider_passes p (Some c) = Inl TypeError) \<and>
   (basic_ok p \<and> exceeds c ''max_cost_per_1k'' (cost_per_1k_tokens p) = Inr False \<and>
    exceeds c ''max_timeout'' (real_of_int (timeout p)) = Inr False \<and>
    dict_get c ''allowed_tiers'' = PList vs \<and> \<not> list_all recognised_tier vs \<longrightarrow>
      provider_passes p (Some c) = Inl ValueError) \<and>
   ((\<exists>q \<in> set (map snd (providers s)). \<exists>e. provider_passes q (Some c) = Inl e) \<longrightarrow>
      (\<exists>e. fst (select_provider s sc context (Some c)) = Inl e \<and> (e = TypeError \<or> e = ValueError)))"
proof (intro conjI impI)
  assume "empty_value (dict_get c k)"
  then show "select_provider s sc context (Some c) = select_provider s sc context (Some (dict_del k c))"
    by (intro select_provider_del empty_value_falsy)
next
  assume "wf_constraints (Some c) \<and> wf_budget (Some c)"
  then show "\<exists>r. fst (select_provider s sc context (Some c)) = Inr r"
    by (intro select_provider_wf) simp_all
next
  assume a: "basic_ok p \<and> malformed_bound (dict_get c ''max_cost_per_1k'')"
  then have "c \<noteq> []" using malformed_nonempty by blast
  with a show "provider_passes p (Some c) = Inl TypeError"
    by (simp add: basic_ok_passes constraints_pass_def malformed_exceeds)
next
  assume a: "basic_ok p \<and> exceeds c ''max_cost_per_1k'' (cost_per_1k_tokens p) = Inr False \<and>
    malformed_bound (dict_get c ''max_timeout'')"
  then have "c \<noteq> []" using malformed_nonempty by blast
  with a show "provider_passes p (Some c) = Inl TypeError"
    by (simp add: basic_ok_passes constraints_pass_def malformed_exceeds)
next
  assume a: "basic_ok p \<and> exceeds c ''max_cost_per_1k'' (cost_per_1k_tokens p) = Inr False \<and>
    exceeds c ''max_timeout'' (real_of_int (timeout p)) = Inr False \<and>
    dict_get c ''allowed_tiers'' = PList vs \<and> \<not> list_all recognised_tier vs"
  then have ne: "vs \<noteq> []" by auto
  with a have "c \<noteq> []" by (auto simp: dict_get_def)
  moreover from a ne have "tier_excluded c (tier p) = Inl ValueError"
    by (simp add: tier_excluded_def tiers_of_unrecognised)
  ultimately show "provider_passes p (Some c) = Inl ValueError"
    using a by (simp add: basic_ok_passes constraints_pass_def)
next
  assume "\<exists>q \<in> set (map snd (providers s)). \<exists>e. provider_passes q (Some c) = Inl e"
  from filter_loop_raises[OF this] obtain e where
    "filter_available_providers s (Some c) = Inl e" "e = TypeError \<or> e = ValueError"
    by (auto simp: filter_available_providers_def)
  then show "\<exists>e. fst (select_provider s sc context (Some c)) = Inl e \<and> (e = TypeError \<or> e = ValueError)"
    by (simp add: select_provider_def)
qed

theorem malformed_constraint_behaviour_witness:
  "empty_value (dict_get [(''max_cost_per_1k'', PStr []), (''allowed_tiers'', PList [PStr ''community''])]
                ''max_cost_per_1k'') \<and>
   select_provider example_selector example_score None
     (Some [(''max_cost_per_1k'', PStr []), (''allowed_tiers'', PList [PStr ''community''])]) =
   select_provider example_selector example_score None
     (Some (dict_del ''max_cost_per_1k''
        [(''max_cost_per_1k'', PStr []), (''allowed_tiers'', PList [PStr ''community''])])) \<and>
   fst (select_provider example_selector example_score None
     (Some [(''max_cost_per_1k'', PStr []), (''allowed_tiers'', PList [PStr ''community''])])) =
   Inr (Some example_P2) \<and>
   basic_ok example_P1 \<and>
   malformed_bound (dict_get [(''max_cost_per_1k'', PStr ''cheap'')] ''max_cost_per_1k'') \<and>
   provider_passes example_P1 (Some [(''max_cost_per_1k'', PStr ''cheap'')]) = Inl TypeError"
proof -
  let ?c = "[(''max_cost_per_1k'', PStr []), (''allowed_tiers'', PList [PStr ''community''])]"
  let ?d = "[(''max_cost_per_1k'', PStr ''cheap'')]"
  have h1: "empty_value (dict_get ?c ''max_cost_per_1k'')"
    by (simp add: dict_get_def empty_value_def)
  have r: "fst (select_provider example_selector example_score None (Some ?c)) = Inr (Some example_P2)"
    by (simp add: select_provider_def sort_scores_def example_defs filter_defs score_defs)
  have h2: "basic_ok example_P1" by (simp add: basic_ok_def example_P1_def)
  have h3: "malformed_bound (dict_get ?d ''max_cost_per_1k'')"
    by (simp add: malformed_bound_def dict_get_def)
  from malformed_constraint_behaviour[of ?c "''max_cost_per_1k''" example_selector example_score None]
    h1
  have e1: "select_provider example_selector example_score None (Some ?c) =
     select_provider example_selector example_score None (Some (dict_del ''max_cost_per_1k'' ?c))"
    by blast
  from malformed_constraint_behaviour[of ?d _ _ _ _ example_P1] h2 h3
  have e2: "provider_passes example_P1 (Some ?d) = Inl TypeError" by blast
  from h1 r h2 h3 e1 e2 show ?thesis by simp
qed

section \<open>Properties of the complexity analyzer\<close>



























lemma not_upper_lower_char: "\<not> is_upper (lower_char c)"
  by (simp add: is_upper_def lower_char_def of_char_of)

lemma runs_chars: "w \<in> set (runs P cur s) \<Longrightarrow> set w \<subseteq> set cur \<union> set s"
proof (induction s arbitrary: cur)
  case Nil
  then show ?case by (auto split: if_splits)
next
  case (Cons c s)
  show ?case
  proof (cases "P c")
    case True
    with Cons.prems have "w \<in> set (runs P (c # cur) s)" by simp
    from Cons.IH[OF this] show ?thesis by auto
  next
    case False
    with Cons.prems have "w = rev cur \<or> w \<in> set (runs P [] s)" by (auto split: if_splits)
    then show ?thesis
    proof
      assume "w = rev cur" then show ?thesis by auto
    next
      assume "w \<in> set (runs P [] s)"
      from Cons.IH[OF this] show ?thesis by auto
    qed
  qed
qed

lemma capitalized_upper: "capitalized w \<Longrightarrow> \<exists>c \<in> set w. is_upper c"
  by (cases w) auto

lemma findall_proper_nouns_lower: "findall_proper_nouns (lower s) = []"
proof -
  have "\<not> capitalized w" if "w \<in> set (runs is_word [] (lower s))" for w
  proof
    assume "capitalized w"
    then obtain c where c: "c \<in> set w" "is_upper c" using capitalized_upper by blast
    from runs_chars[OF that] c(1) have "c \<in> set (lower s)" by auto
    then obtain d where "c = lower_char d" by (auto simp: lower_def)
    with c(2) not_upper_lower_char show False by simp
  qed
  then show ?thesis by (simp add: findall_proper_nouns_def filter_empty_conv)
qed

text \<open>
  Claim C7 says that more than three capitalized words add 0.2 to the knowledge base score.
  The code looks for them in the lower-cased content, where the pattern
  \<open>\b[A-Z][a-z]+\b\<close> has no match: for every content the list of proper nouns is empty
  and the knowledge base score is the keyword term plus the indicator term alone. The content
  \<open>Ask Alice Bob Carol Dave\<close> has five capitalized words and gets the knowledge score 0 of
  its lower-cased copy, and the same \<open>ComplexityScore\<close>.
\<close>

theorem proper_nouns_never_counted:
  "findall_proper_nouns (lower content) = [] \<and>
   calculate_knowledge_score (lower content) =
     min 1.0 (min 0.6 (real (count_keywords knowledge_keywords (lower content)) * 0.1) +
              (if any_in [''research'', ''study'', ''theory'', ''concept''] (lower content) then 0.2 else 0)) \<and>
   length (findall_proper_nouns ''Ask Alice Bob Carol Dave'') = 5 \<and>
   calculate_knowledge_score (lower ''Ask Alice Bob Carol Dave'') = 0 \<and>
   calculate_knowledge_score (lower ''ask alice bob carol dave'') = 0 \<and>
   analyze_complexity ''Ask Alice Bob Carol Dave'' None = analyze_complexity ''ask alice bob carol dave'' None"
proof -
  have 1: "findall_proper_nouns (lower content) = []" by (rule findall_proper_nouns_lower)
  have 2: "calculate_knowledge_score (lower content) =
     min 1.0 (min 0.6 (real (count_keywords knowledge_keywords (lower content)) * 0.1) +
              (if any_in [''research'', ''study'', ''theory'', ''concept''] (lower content) then 0.2 else 0))"
    by (simp add: calculate_knowledge_score_def Let_def findall_proper_nouns_lower)
  have 3: "length (findall_proper_nouns ''Ask Alice Bob Carol Dave'') = 5" by code_simp
  have 4: "calculate_knowledge_score (lower ''Ask Alice Bob Carol Dave'') = 0" by code_simp
  have 5: "calculate_knowledge_score (lower ''ask alice bob carol dave'') = 0" by code_simp
  have 6: "analyze_complexity ''Ask Alice Bob Carol Dave'' None = analyze_complexity ''ask alice bob carol dave'' None"
    by code_simp
  from 1 2 3 4 5 6 show ?thesis by (intro conjI)
qed

section \<open>Properties of the metrics collector\<close>

lemma dom_complexity_zero: "dom complexity_zero = levels"
  by (auto simp: complexity_zero_def levels_def split: if_splits)

lemma collector_inv_init: "collector_inv (MetricsCollector_init hours now)"
  by (simp add: collector_inv_def MetricsCollector_init_def dom_complexity_zero)

lemma mc_update_frame:
  "request_metrics (mc_update_provider_metrics s m) = request_metrics s"
  "complexity_stats (mc_update_provider_metrics s m) = complexity_stats s"
  "hourly_stats (mc_update_provider_metrics s m) = hourly_stats s"
  by (simp_all add: mc_update_provider_metrics_def Let_def)

lemma mc_update_total:
  "provider_total (mc_update_provider_metrics s m) (provider m) = provider_total s (provider m) + 1"
  by (simp add: mc_update_provider_metrics_def provider_total_def new_ProviderMetrics_def Let_def
      split: option.splits)

lemma hourly_inv_upd:
  assumes "\<forall>st \<in> ran h. dom (hour_complexity st) = levels" "dom (hour_complexity st') = levels"
  shows "\<forall>st \<in> ran (h(k \<mapsto> st')). dom (hour_complexity st) = levels"
  using assms by (auto simp: ran_def split: if_splits)

lemma update_hourly_ok:
  assumes inv: "\<forall>st \<in> ran (hourly_stats s). dom (hour_complexity st) = levels"
    and lv: "metric_complexity_level m \<in> levels"
  shows "fst (update_hourly_stats s m hour_of) = None \<and>
         request_metrics (snd (update_hourly_stats s m hour_of)) = request_metrics s \<and>
         provider_metrics (snd (update_hourly_stats s m hour_of)) = provider_metrics s \<and>
         complexity_stats (snd (update_hourly_stats s m hour_of)) = complexity_stats s \<and>
         (\<forall>st \<in> ran (hourly_stats (snd (update_hourly_stats s m hour_of))).
            dom (hour_complexity st) = levels)"
proof -
  define st0 where "st0 = (case hourly_stats s (hour_of (timestamp m)) of
                             None \<Rightarrow> new_HourlyStats | Some st \<Rightarrow> st)"
  have d0: "dom (hour_complexity st0) = levels"
  proof (cases "hourly_stats s (hour_of (timestamp m))")
    case None
    then show ?thesis by (simp add: st0_def new_HourlyStats_def dom_complexity_zero)
  next
    case (Some st)
    then have "st \<in> ran (hourly_stats s)" by (auto simp: ran_def)
    with inv Some show ?thesis by (simp add: st0_def)
  qed
  with lv obtain n where n: "hour_complexity st0 (metric_complexity_level m) = Some n"
    by (metis domD)
  have d1: "dom ((hour_complexity st0)(metric_complexity_level m \<mapsto> n + 1)) = levels"
    using lv d0 by (simp add: insert_absorb)
  obtain st' where
    eq: "update_hourly_stats s m hour_of =
           (None, s\<lparr>hourly_stats := (hourly_stats s)(hour_of (timestamp m) \<mapsto> st')\<rparr>)"
    and st': "hour_complexity st' = (hour_complexity st0)(metric_complexity_level m \<mapsto> n + 1)"
    unfolding update_hourly_stats_def Let_def st0_def[symmetric]
    by (cases "success m") (simp_all add: n)
  from st' d1 have "dom (hour_complexity st') = levels" by simp
  from hourly_inv_upd[OF inv this]
  have "\<forall>st \<in> ran ((hourly_stats s)(hour_of (timestamp m) \<mapsto> st')). dom (hour_complexity st) = levels" .
  then show ?thesis unfolding eq by simp
qed

text \<open>
  Claim C10. On a collector whose complexity counters have the keys \<open>low\<close>, \<open>medium\<close> and
  \<open>high\<close>, as \<open>__init__\<close> sets them up and \<open>record_request\<close> keeps them:
  \<open>record_request\<close> raises a \<open>KeyError\<close> when \<open>complexity_level\<close> is any other string, and
  then the complexity counter and the hourly statistics are as before; it raises nothing for
  the three levels, and then the counter of the level is one higher. In both cases the metric
  has been appended to the log and the provider's total request count is one higher, so on
  the error the log and the provider aggregates have already been mutated.
\<close>

theorem record_request_key_error:
  assumes "collector_inv s"
  shows
    "(level \<notin> levels \<longrightarrow>
        fst (record_request s pn mdl ok rt cst it ot level err now hour_of) = Some KeyError \<and>
        complexity_stats (snd (record_request s pn mdl ok rt cst it ot level err now hour_of)) =
          complexity_stats s \<and>
        hourly_stats (snd (record_request s pn mdl ok rt cst it ot level err now hour_of)) =
          hourly_stats s) \<and>
     (level \<in> levels \<longrightarrow>
        fst (record_request s pn mdl ok rt cst it ot level err now hour_of) = None \<and>
        complexity_stats (snd (record_request s pn mdl ok rt cst it ot level err now hour_of)) level =
          map_option (\<lambda>n. n + 1) (complexity_stats s level)) \<and>
     request_metrics (snd (record_request s pn mdl ok rt cst it ot level err now hour_of)) =
       request_metrics s @
         [\<lparr>timestamp = now, provider = pn, model = mdl, success = ok, response_time = rt,
           cost = cst, input_tokens = it, output_tokens = ot, metric_complexity_level = level,
           error_type = err\<rparr>] \<and>
     provider_total (snd (record_request s pn mdl ok rt cst it ot level err now hour_of)) pn =
       provider_total s pn + 1 \<and>
     collector_inv (snd (record_request s pn mdl ok rt cst it ot level err now hour_of))"
proof -
  define metric where "metric = \<lparr>timestamp = now, provider = pn, model = mdl, success = ok,
     response_time = rt, cost = cst, input_tokens = it, output_tokens = ot,
     metric_complexity_level = level, error_type = err\<rparr>"
  define s1 where "s1 = mc_update_provider_metrics (s\<lparr>request_metrics := request_metrics s @ [metric]\<rparr>) metric"
  define R where "R = record_request s pn mdl ok rt cst it ot level err now hour_of"
  have pm: "provider metric = pn" "metric_complexity_level metric = level"
    by (simp_all add: metric_def)
  have s1: "request_metrics s1 = request_metrics s @ [metric]" "complexity_stats s1 = complexity_stats s"
    "hourly_stats s1 = hourly_stats s"
    by (simp_all add: s1_def mc_update_frame)
  have tot: "provider_total s1 pn = provider_total s pn + 1"
    using mc_update_total[of "s\<lparr>request_metrics := request_metrics s @ [metric]\<rparr>" metric]
    by (simp add: s1_def pm provider_total_def)
  have rr: "R = (case complexity_stats s1 level of
         None \<Rightarrow> (Some KeyError, s1)
       | Some n \<Rightarrow> update_hourly_stats (s1\<lparr>complexity_stats := (complexity_stats s1)(level \<mapsto> n + 1)\<rparr>)
                     metric hour_of)"
    unfolding R_def record_request_def Let_def s1_def metric_def by (rule refl)
  from assms have dom: "dom (complexity_stats s) = levels"
    and hinv: "\<forall>st \<in> ran (hourly_stats s). dom (hour_complexity st) = levels"
    by (simp_all add: collector_inv_def)
  have goal: "(level \<notin> levels \<longrightarrow>
        fst R = Some KeyError \<and> complexity_stats (snd R) = complexity_stats s \<and>
        hourly_stats (snd R) = hourly_stats s) \<and>
     (level \<in> levels \<longrightarrow>
        fst R = None \<and>
        complexity_stats (snd R) level = map_option (\<lambda>n. n + 1) (complexity_stats s level)) \<and>
     request_metrics (snd R) = request_metrics s @ [metric] \<and>
     provider_total (snd R) pn = provider_total s pn + 1 \<and>
     collector_inv (snd R)"
  proof (cases "level \<in> levels")
    case False
    with dom have "complexity_stats s1 level = None" by (auto simp: s1(2))
    with rr have r: "R = (Some KeyError, s1)" by simp
    have "collector_inv s1" using assms by (simp add: collector_inv_def s1)
    with False show ?thesis by (simp add: r s1 tot)
  next
    case True
    with dom obtain n where n: "complexity_stats s level = Some n" by (metis domD)
    define s2 where "s2 = s1\<lparr>complexity_stats := (complexity_stats s1)(level \<mapsto> n + 1)\<rparr>"
    from n rr have r: "R = update_hourly_stats s2 metric hour_of"
      by (simp add: s1(2) s2_def)
    have s2: "provider_metrics s2 = provider_metrics s1" "request_metrics s2 = request_metrics s1"
      "hourly_stats s2 = hourly_stats s1" "complexity_stats s2 = (complexity_stats s)(level \<mapsto> n + 1)"
      by (simp_all add: s2_def s1(2))
    have h2: "\<forall>st \<in> ran (hourly_stats s2). dom (hour_complexity st) = levels"
      using hinv by (simp add: s2 s1)
    have lv: "metric_complexity_level metric \<in> levels" using True by (simp add: pm)
    note u = update_hourly_ok[OF h2 lv, of hour_of, folded r]
    have d2: "dom (complexity_stats s2) = levels"
      using dom True by (simp add: s2 insert_absorb)
    have inv': "collector_inv (snd R)"
      using u d2 by (simp add: collector_inv_def)
    have tot': "provider_total (snd R) pn = provider_total s pn + 1"
      using u tot s2(1) by (simp add: provider_total_def)
    have cs: "complexity_stats (snd R) level = map_option (\<lambda>n. n + 1) (complexity_stats s level)"
      using u n by (simp add: s2)
    have rm: "request_metrics (snd R) = request_metrics s @ [metric]"
      using u by (simp add: s2 s1)
    from True u inv' tot' cs rm show ?thesis by simp
  qed
  then show ?thesis unfolding R_def metric_def .
qed

theorem record_request_key_error_witness:
  "collector_inv (MetricsCollector_init 24 0) \<and>
   fst (record_request (MetricsCollector_init 24 0) ''unknown'' ''unknown'' False 0.5 0 0 0
          ''unknown'' (Some ''HTTPException'') 100 (\<lambda>t. ''1970-01-01-00'')) = Some KeyError \<and>
   length (request_metrics (snd (record_request (MetricsCollector_init 24 0) ''unknown'' ''unknown'' False
          0.5 0 0 0 ''unknown'' (Some ''HTTPException'') 100 (\<lambda>t. ''1970-01-01-00'')))) = 1 \<and>
   provider_total (snd (record_request (MetricsCollector_init 24 0) ''unknown'' ''unknown'' False
          0.5 0 0 0 ''unknown'' (Some ''HTTPException'') 100 (\<lambda>t. ''1970-01-01-00''))) ''unknown'' = 1 \<and>
   fst (record_request (MetricsCollector_init 24 0) ''P1'' ''m1'' True 0.5 0.001 10 20
          ''medium'' None 100 (\<lambda>t. ''1970-01-01-00'')) = None"
proof -
  let ?s = "MetricsCollector_init 24 0"
  let ?h = "\<lambda>t::real. ''1970-01-01-00''"
  have i: "collector_inv ?s" by (rule collector_inv_init)
  have u: "''unknown'' \<notin> levels" by (simp add: levels_def)
  have m: "''medium'' \<in> levels" by (simp add: levels_def)
  have z: "provider_total ?s ''unknown'' = 0" "request_metrics ?s = []"
    by (simp_all add: provider_total_def MetricsCollector_init_def)
  note a = record_request_key_error[OF i, of "''unknown''" "''unknown''" "''unknown''" False "0.5" 0 0 0
      "Some ''HTTPException''" 100 "?h"]
  note b = record_request_key_error[OF i, of "''medium''" "''P1''" "''m1''" True "0.5" "0.001" 10 20 None 100 "?h"]
  from a u have a1: "fst (record_request ?s ''unknown'' ''unknown'' False 0.5 0 0 0
          ''unknown'' (Some ''HTTPException'') 100 ?h) = Some KeyError" by blast
  from a have a2: "length (request_metrics (snd (record_request ?s ''unknown'' ''unknown'' False
          0.5 0 0 0 ''unknown'' (Some ''HTTPException'') 100 ?h))) = 1"
    by (simp add: z)
  from a have a3: "provider_total (snd (record_request ?s ''unknown'' ''unknown'' False
          0.5 0 0 0 ''unknown'' (Some ''HTTPException'') 100 ?h)) ''unknown'' = 1"
    by (simp add: z)
  from b m have b1: "fst (record_request ?s ''P1'' ''m1'' True 0.5 0.001 10 20
          ''medium'' None 100 ?h) = None" by blast
  from i a1 a2 a3 b1 show ?thesis by (intro conjI)
qed

end
